theory Spec2Isabelle
  imports Complex_Main "HOL-Library.Sublist"
begin

section \<open>Python strings\<close>

text \<open>
  A Python \<open>str\<close> is modelled as a \<open>string\<close> whose characters are the code points
  below 256.  \<open>a in b\<close> on strings is \<open>sublist a b\<close>, \<open>b.startswith(a)\<close> is
  \<open>prefix a b\<close>, \<open>len\<close> is \<open>length\<close>.
\<close>

definition py_isspace :: "char \<Rightarrow> bool" where
  \<comment> \<open>\<open>str.isspace\<close> on one character; also the class \<open>\s\<close> of \<open>re\<close>\<close>
  "py_isspace c =
     (let n = (of_char c :: nat)
      in (9 \<le> n \<and> n \<le> 13) \<or> (28 \<le> n \<and> n \<le> 32) \<or> n = 133 \<or> n = 160)"

definition py_isdigit :: "char \<Rightarrow> bool" where
  \<comment> \<open>the class \<open>\d\<close> of \<open>re\<close>\<close>
  "py_isdigit c = (let n = (of_char c :: nat) in 48 \<le> n \<and> n \<le> 57)"

definition lower_char :: "char \<Rightarrow> char" where
  "lower_char c =
     (let n = (of_char c :: nat)
      in if (65 \<le> n \<and> n \<le> 90) \<or> (192 \<le> n \<and> n \<le> 222 \<and> n \<noteq> 215)
         then char_of (n + 32) else c)"

definition lower :: "string \<Rightarrow> string" where
  \<comment> \<open>\<open>str.lower()\<close>\<close>
  "lower s = map lower_char s"

definition lstrip :: "string \<Rightarrow> string" where
  "lstrip s = dropWhile py_isspace s"

definition rstrip :: "string \<Rightarrow> string" where
  "rstrip s = rev (dropWhile py_isspace (rev s))"

definition strip :: "string \<Rightarrow> string" where
  \<comment> \<open>\<open>str.strip()\<close>\<close>
  "strip s = rstrip (lstrip s)"

section \<open>Regular expressions of the \<open>re\<close> module\<close>

text \<open>
  The patterns of the source use character classes, literals, greedy \<open>*\<close> and \<open>+\<close> and
  lazy \<open>+?\<close> over a single character class, \<open>?\<close>, capturing groups and \<open>$\<close>.  The
  matcher returns every way to match a prefix of the input, as the pair of the groups
  captured and the text left over, in the order in which the backtracking matcher of
  \<open>re\<close> tries them; the head of the list is the match \<open>re\<close> reports.  No pattern of the
  source has a group under \<open>?\<close> or under a repetition.
\<close>

datatype cclass =
    Dot             \<comment> \<open>\<open>.\<close>: anything but a newline\<close>
  | WS              \<comment> \<open>\<open>\s\<close>\<close>
  | Digit           \<comment> \<open>\<open>\d\<close>\<close>
  | Ch char         \<comment> \<open>a literal character\<close>
  | NotCh char      \<comment> \<open>\<open>[^c]\<close>\<close>
  | Or cclass cclass \<comment> \<open>a set \<open>[..]\<close> of several classes\<close>

datatype regex =
    Cls cclass
  | Lit string          \<comment> \<open>a run of literal characters\<close>
  | Cat regex regex
  | Star cclass         \<comment> \<open>greedy \<open>*\<close>\<close>
  | Plus cclass         \<comment> \<open>greedy \<open>+\<close>\<close>
  | LazyPlus cclass     \<comment> \<open>\<open>+?\<close>\<close>
  | Opt regex           \<comment> \<open>greedy \<open>?\<close>\<close>
  | Group regex         \<comment> \<open>a capturing group\<close>
  | Eos                 \<comment> \<open>\<open>$\<close> without \<open>re.MULTILINE\<close>\<close>

fun cc_ok :: "bool \<Rightarrow> cclass \<Rightarrow> char \<Rightarrow> bool" where
  "cc_ok ic Dot c = (c \<noteq> CHR 0x0A)"
| "cc_ok ic WS c = py_isspace c"
| "cc_ok ic Digit c = py_isdigit c"
| "cc_ok ic (Ch a) c = (if ic then lower_char c = lower_char a else c = a)"
| "cc_ok ic (NotCh a) c = (\<not> (if ic then lower_char c = lower_char a else c = a))"
| "cc_ok ic (Or k l) c = (cc_ok ic k c \<or> cc_ok ic l c)"

fun lit_ok :: "bool \<Rightarrow> string \<Rightarrow> string \<Rightarrow> bool" where
  "lit_ok ic [] s = True"
| "lit_ok ic (a # l) [] = False"
| "lit_ok ic (a # l) (c # s) = (cc_ok ic (Ch a) c \<and> lit_ok ic l s)"

fun star_rests :: "(char \<Rightarrow> bool) \<Rightarrow> string \<Rightarrow> string list" where
  \<comment> \<open>what a greedy \<open>*\<close> can leave over, the longest match first\<close>
  "star_rests p [] = [[]]"
| "star_rests p (c # s) = (if p c then star_rests p s else []) @ [c # s]"

fun plus_rests :: "(char \<Rightarrow> bool) \<Rightarrow> string \<Rightarrow> string list" where
  "plus_rests p [] = []"
| "plus_rests p (c # s) = (if p c then star_rests p s else [])"

fun lazy_plus_rests :: "(char \<Rightarrow> bool) \<Rightarrow> string \<Rightarrow> string list" where
  \<comment> \<open>what \<open>+?\<close> can leave over, the shortest match first\<close>
  "lazy_plus_rests p [] = []"
| "lazy_plus_rests p (c # s) = (if p c then s # lazy_plus_rests p s else [])"

fun rx :: "bool \<Rightarrow> regex \<Rightarrow> string \<Rightarrow> (string list \<times> string) list" where
  "rx ic (Cls k) s = (case s of [] \<Rightarrow> [] | c # r \<Rightarrow> if cc_ok ic k c then [([], r)] else [])"
| "rx ic (Lit l) s = (if lit_ok ic l s then [([], drop (length l) s)] else [])"
| "rx ic (Cat a b) s =
     concat (map (\<lambda>(g1, s1). map (\<lambda>(g2, s2). (g1 @ g2, s2)) (rx ic b s1)) (rx ic a s))"
| "rx ic (Star k) s = map (\<lambda>r. ([], r)) (star_rests (cc_ok ic k) s)"
| "rx ic (Plus k) s = map (\<lambda>r. ([], r)) (plus_rests (cc_ok ic k) s)"
| "rx ic (LazyPlus k) s = map (\<lambda>r. ([], r)) (lazy_plus_rests (cc_ok ic k) s)"
| "rx ic (Opt a) s = rx ic a s @ [([], s)]"
| "rx ic (Group a) s = map (\<lambda>(g, r). (take (length s - length r) s # g, r)) (rx ic a s)"
| "rx ic Eos s = (if s = [] \<or> s = [CHR 0x0A] then [([], s)] else [])"

fun seq :: "regex list \<Rightarrow> regex" where
  "seq [] = Lit []"
| "seq [r] = r"
| "seq (r # rs) = Cat r (seq rs)"

definition re_match :: "bool \<Rightarrow> regex \<Rightarrow> string \<Rightarrow> string list option" where
  \<comment> \<open>\<open>re.match\<close>: the groups of the first match at the start of the text\<close>
  "re_match ic p s = (case rx ic p s of [] \<Rightarrow> None | (g, r) # _ \<Rightarrow> Some g)"

fun re_search :: "bool \<Rightarrow> regex \<Rightarrow> string \<Rightarrow> (string \<times> string list \<times> string) option" where
  \<comment> \<open>\<open>re.search\<close>: the leftmost match, as (text before it, its groups, text after it)\<close>
  "re_search ic p [] = (case rx ic p [] of [] \<Rightarrow> None | (g, r) # _ \<Rightarrow> Some ([], g, r))"
| "re_search ic p (c # s) =
     (case rx ic p (c # s) of
        (g, r) # _ \<Rightarrow> Some ([], g, r)
      | [] \<Rightarrow> (case re_search ic p s of
                 None \<Rightarrow> None
               | Some (pre, g, r) \<Rightarrow> Some (c # pre, g, r)))"

text \<open>
  \<open>re.split\<close>, \<open>re.sub\<close> with the empty replacement and \<open>re.findall\<close> scan the text for
  successive matches.  Every pattern the source uses with them matches at least one
  character; the scan below stops at a match that consumes nothing.
\<close>

function re_split :: "bool \<Rightarrow> regex \<Rightarrow> string \<Rightarrow> string list" where
  "re_split ic p s =
     (case re_search ic p s of
        None \<Rightarrow> [s]
      | Some (pre, g, r) \<Rightarrow> if length r < length s then pre # re_split ic p r else [s])"
  by pat_completeness auto
termination
  by (relation "measure (\<lambda>(ic, p, s). length s)") auto

function re_sub_empty :: "bool \<Rightarrow> regex \<Rightarrow> string \<Rightarrow> string" where
  "re_sub_empty ic p s =
     (case re_search ic p s of
        None \<Rightarrow> s
      | Some (pre, g, r) \<Rightarrow> if length r < length s then pre @ re_sub_empty ic p r else s)"
  by pat_completeness auto
termination
  by (relation "measure (\<lambda>(ic, p, s). length s)") auto

function re_findall1 :: "bool \<Rightarrow> regex \<Rightarrow> string \<Rightarrow> string list" where
  \<comment> \<open>\<open>re.findall\<close> for a pattern with one group: the group of every match\<close>
  "re_findall1 ic p s =
     (case re_search ic p s of
        None \<Rightarrow> []
      | Some (pre, g, r) \<Rightarrow>
          if length r < length s then (case g of [] \<Rightarrow> [] | v # _ \<Rightarrow> v) # re_findall1 ic p r
          else [])"
  by pat_completeness auto
termination
  by (relation "measure (\<lambda>(ic, p, s). length s)") auto

section \<open>Condition parser: \<open>parse_applies_if_condition\<close>\<close>

datatype condition_type = Equals | DoesNotEqual | StartsWith | Contains | DoesNotContain

type_synonym condition = "string \<times> condition_type \<times> string list"

definition numbered_marker :: regex where
  \<comment> \<open>\<^verbatim>\<open>\d+\.\s*\<close>\<close>
  "numbered_marker = seq [Plus Digit, Cls (Ch CHR ''.''), Star WS]"

definition in_all_items_suffix :: regex where
  \<comment> \<open>\<^verbatim>\<open>\s+in all items\s*$\<close>\<close>
  "in_all_items_suffix = seq [Plus WS, Lit ''in all items'', Star WS, Eos]"

definition and_connective :: regex where
  \<comment> \<open>\<^verbatim>\<open>\s+and\s+\<close>\<close>
  "and_connective = seq [Plus WS, Lit ''and'', Plus WS]"

definition quoted_value :: regex where
  \<comment> \<open>\<^verbatim>\<open>'([^']*)'\<close>\<close>
  "quoted_value = seq [Cls (Ch CHR 0x27), Group (Star (NotCh CHR 0x27)), Cls (Ch CHR 0x27)]"

definition not_equal_pattern :: regex where
  \<comment> \<open>\<^verbatim>\<open>(.+?)\s+does\s+not\s+equal\s*(?:to\s+)?(.+)\<close>\<close>
  "not_equal_pattern =
     seq [Group (LazyPlus Dot), Plus WS, Lit ''does'', Plus WS, Lit ''not'', Plus WS,
          Lit ''equal'', Star WS, Opt (seq [Lit ''to'', Plus WS]), Group (Plus Dot)]"

definition not_contain_pattern :: regex where
  \<comment> \<open>\<^verbatim>\<open>(.+?)\s+does\s+not\s+contain\s*(.+)\<close>\<close>
  "not_contain_pattern =
     seq [Group (LazyPlus Dot), Plus WS, Lit ''does'', Plus WS, Lit ''not'', Plus WS,
          Lit ''contain'', Star WS, Group (Plus Dot)]"

definition equals_pattern :: regex where
  \<comment> \<open>\<^verbatim>\<open>(.+?)\s+equals?\s*(?:to\s+)?(.+)\<close>\<close>
  "equals_pattern =
     seq [Group (LazyPlus Dot), Plus WS, Lit ''equal'', Opt (Lit ''s''), Star WS,
          Opt (seq [Lit ''to'', Plus WS]), Group (Plus Dot)]"

definition starts_pattern :: regex where
  \<comment> \<open>\<^verbatim>\<open>(.+?)\s+starts?\s+with\s+(.+)\<close>\<close>
  "starts_pattern =
     seq [Group (LazyPlus Dot), Plus WS, Lit ''start'', Opt (Lit ''s''), Plus WS,
          Lit ''with'', Plus WS, Group (Plus Dot)]"

definition contains_pattern :: regex where
  \<comment> \<open>\<^verbatim>\<open>(.+?)\s+contains?\s+(.+)\<close>\<close>
  "contains_pattern =
     seq [Group (LazyPlus Dot), Plus WS, Lit ''contain'', Opt (Lit ''s''), Plus WS,
          Group (Plus Dot)]"

definition emit :: "condition_type \<Rightarrow> string list \<Rightarrow> condition list" where
  \<comment> \<open>the body shared by the five branches: groups 1 and 2 of the match, the quoted values
      of group 2, and the condition appended only when there is a value\<close>
  "emit kind g =
     (case g of
        column # rest # _ \<Rightarrow>
          (let column_name = strip column;
               values_str = strip rest;
               vals = re_findall1 False quoted_value values_str
           in if vals \<noteq> [] then [(column_name, kind, vals)] else [])
      | _ \<Rightarrow> [])"

definition parse_sub_part :: "string \<Rightarrow> condition list" where
  \<comment> \<open>one pass of the inner loop on a stripped, non-empty sub-clause\<close>
  "parse_sub_part sub_part =
     (case re_match True not_equal_pattern sub_part of
        Some g \<Rightarrow> emit DoesNotEqual g
      | None \<Rightarrow>
     (case re_match True not_contain_pattern sub_part of
        Some g \<Rightarrow> emit DoesNotContain g
      | None \<Rightarrow>
     (case re_match True equals_pattern sub_part of
        Some g \<Rightarrow> emit Equals g
      | None \<Rightarrow>
     (case re_match True starts_pattern sub_part of
        Some g \<Rightarrow> emit StartsWith g
      | None \<Rightarrow>
     (case re_match True contains_pattern sub_part of
        Some g \<Rightarrow> emit Contains g
      | None \<Rightarrow> [])))))"

fun parse_sub_parts :: "string list \<Rightarrow> condition list" where
  "parse_sub_parts [] = []"
| "parse_sub_parts (sp # sps) =
     (let sub_part = strip sp
      in if sub_part = [] then parse_sub_parts sps
         else parse_sub_part sub_part @ parse_sub_parts sps)"

fun parse_parts :: "string list \<Rightarrow> condition list" where
  "parse_parts [] = []"
| "parse_parts (p # ps) =
     (let part = strip p
      in if part = [] then parse_parts ps
         else (let part' = re_sub_empty True in_all_items_suffix part;
                   sub_parts = re_split True and_connective part'
               in parse_sub_parts sub_parts @ parse_parts ps))"

definition parse_applies_if_text :: "string \<Rightarrow> condition list" where
  \<comment> \<open>the function from \<open>text = str(applies_if_text).strip()\<close> on\<close>
  "parse_applies_if_text s =
     (let text = strip s; low = lower text
      in if text = [] \<or> sublist ''no condition'' low then []
         else if sublist ''applies if invoiced'' low \<and> sublist ''carrier'' low \<and>
                 length text < 50 \<and> \<not> sublist ''equals'' low \<and>
                 \<not> sublist ''starts'' low \<and> \<not> sublist ''contains'' low
         then []
         else parse_parts (re_split False numbered_marker text))"

section \<open>Cell values and the conversions of the Python runtime\<close>

text \<open>
  A cell of a table, or a value of a dictionary built from one, is \<open>None\<close>, the float
  \<open>nan\<close> that pandas uses for a missing value, an integer, a finite float or a text.
  Infinite floats are left out.  A float is a real number or \<open>nan\<close>; comparisons with
  \<open>nan\<close> are false and products with it are \<open>nan\<close>.
\<close>

datatype cell = CNone | CNaN | CInt int | CFloat real | CStr string

datatype pyfloat = Fin real | FNaN

fun fmul :: "pyfloat \<Rightarrow> pyfloat \<Rightarrow> pyfloat" where
  "fmul (Fin a) (Fin b) = Fin (a * b)"
| "fmul _ _ = FNaN"

fun flt :: "pyfloat \<Rightarrow> pyfloat \<Rightarrow> bool" where
  "flt (Fin a) (Fin b) = (a < b)"
| "flt _ _ = False"

fun fle :: "pyfloat \<Rightarrow> pyfloat \<Rightarrow> bool" where
  "fle (Fin a) (Fin b) = (a \<le> b)"
| "fle _ _ = False"

text \<open>
  What the model does not compute is taken from the runtime: the float that \<open>float()\<close>
  reads from a text (\<open>None\<close> for \<open>ValueError\<close>), the text \<open>str()\<close> gives for a float, the
  format \<open>:.2f\<close>, and the \<open>repr\<close> of a list of texts.
\<close>

record runtime =
  float_of_str :: "string \<Rightarrow> pyfloat option"
  repr_float :: "real \<Rightarrow> string"
  fmt_2f :: "pyfloat \<Rightarrow> string"
  repr_list :: "string list \<Rightarrow> string"

fun digit_char :: "nat \<Rightarrow> char" where
  "digit_char n = char_of (48 + n)"

fun str_nat :: "nat \<Rightarrow> string" where
  "str_nat n = (if n < 10 then [digit_char n] else str_nat (n div 10) @ [digit_char (n mod 10)])"

definition str_int :: "int \<Rightarrow> string" where
  \<comment> \<open>\<open>str()\<close> of an integer\<close>
  "str_int i = (if i < 0 then CHR ''-'' # str_nat (nat (- i)) else str_nat (nat i))"

fun py_str :: "runtime \<Rightarrow> cell \<Rightarrow> string" where
  \<comment> \<open>\<open>str()\<close>\<close>
  "py_str rt CNone = ''None''"
| "py_str rt CNaN = ''nan''"
| "py_str rt (CInt i) = str_int i"
| "py_str rt (CFloat r) = repr_float rt r"
| "py_str rt (CStr s) = s"

fun py_float :: "runtime \<Rightarrow> cell \<Rightarrow> pyfloat option" where
  \<comment> \<open>\<open>float()\<close>; \<open>None\<close> stands for \<open>ValueError\<close> or \<open>TypeError\<close>\<close>
  "py_float rt CNone = None"
| "py_float rt CNaN = Some FNaN"
| "py_float rt (CInt i) = Some (Fin (of_int i))"
| "py_float rt (CFloat r) = Some (Fin r)"
| "py_float rt (CStr s) = float_of_str rt s"

fun truthy :: "cell \<Rightarrow> bool" where
  \<comment> \<open>the truth value of a cell in \<open>if x\<close>\<close>
  "truthy CNone = False"
| "truthy CNaN = True"
| "truthy (CInt i) = (i \<noteq> 0)"
| "truthy (CFloat r) = (r \<noteq> 0)"
| "truthy (CStr s) = (s \<noteq> [])"

fun isna :: "cell \<Rightarrow> bool" where
  \<comment> \<open>\<open>pd.isna\<close>; \<open>pd.notna\<close> is its negation\<close>
  "isna CNone = True"
| "isna CNaN = True"
| "isna _ = False"

definition trunc :: "real \<Rightarrow> int" where
  \<comment> \<open>\<open>int()\<close> of a float\<close>
  "trunc r = (if 0 \<le> r then \<lfloor>r\<rfloor> else \<lceil>r\<rceil>)"

definition parse_applies_if_condition :: "runtime \<Rightarrow> cell \<Rightarrow> condition list" where
  "parse_applies_if_condition rt applies_if_text =
     (if \<not> truthy applies_if_text \<or> isna applies_if_text then []
      else parse_applies_if_text (py_str rt applies_if_text))"

section \<open>Condition evaluator: \<open>check_applies_if_condition\<close>\<close>

type_synonym row_data = "(string \<times> cell) list"
  \<comment> \<open>a dictionary from column name to value, in the order of \<open>items()\<close>\<close>

definition column_mappings :: "(string \<times> string list) list" where
  "column_mappings =
     [(''origin country'', [''SHIP_COUNTRY'', ''ship_country'', ''Origin Country'', ''origin_country'']),
      (''destination country'', [''CUST_COUNTRY'', ''cust_country'', ''Destination Country'',
                                 ''destination_country'', ''dest_country'']),
      (''origin_country'', [''SHIP_COUNTRY'', ''ship_country'', ''Origin Country'']),
      (''destination_country'', [''CUST_COUNTRY'', ''cust_country'', ''Destination Country'']),
      (''ship country'', [''SHIP_COUNTRY'', ''ship_country'']),
      (''cust country'', [''CUST_COUNTRY'', ''cust_country''])]"

definition replace_char :: "char \<Rightarrow> string \<Rightarrow> string \<Rightarrow> string" where
  \<comment> \<open>\<open>s.replace(c, t)\<close> for a single character \<open>c\<close>\<close>
  "replace_char c t s = concat (map (\<lambda>x. if x = c then t else [x]) s)"

definition norm_underscore :: "string \<Rightarrow> string" where
  \<comment> \<open>\<open>.lower().replace(' ', '_').replace('-', '_')\<close>\<close>
  "norm_underscore s = replace_char CHR ''-'' ''_'' (replace_char CHR '' '' ''_'' (lower s))"

definition norm_nospace :: "string \<Rightarrow> string" where
  \<comment> \<open>\<open>.lower().replace(' ', '').replace('_', '')\<close>\<close>
  "norm_nospace s = replace_char CHR ''_'' [] (replace_char CHR '' '' [] (lower s))"

definition mapped_columns_for :: "string \<Rightarrow> string list" where
  "mapped_columns_for column_name =
     (case map_of column_mappings (lower column_name) of
        Some (m # ms) \<Rightarrow> m # ms
      | _ \<Rightarrow> (case map_of column_mappings (norm_underscore column_name) of
                Some ms \<Rightarrow> ms | None \<Rightarrow> []))"

fun find_item :: "(string \<Rightarrow> bool) \<Rightarrow> row_data \<Rightarrow> (string \<times> cell) option" where
  \<comment> \<open>\<open>for col, val in row.items(): if test(col): ...; break\<close>\<close>
  "find_item test [] = None"
| "find_item test ((col, val) # items) =
     (if test col then Some (col, val) else find_item test items)"

fun find_mapped :: "string list \<Rightarrow> row_data \<Rightarrow> (string \<times> cell) option" where
  \<comment> \<open>the loop over the mapped columns; a key that matches a mapped column is not
      empty, so \<open>if matched_column: break\<close> leaves the loop at the first hit\<close>
  "find_mapped [] row = None"
| "find_mapped (mapped_col # ms) row =
     (case find_item (\<lambda>col. lower col = lower mapped_col \<or> col = mapped_col) row of
        Some hit \<Rightarrow> Some hit
      | None \<Rightarrow> find_mapped ms row)"

definition standard_match :: "string \<Rightarrow> string \<Rightarrow> bool" where
  "standard_match column_name col =
     (norm_underscore col = norm_underscore column_name \<or>
      norm_nospace col = norm_nospace column_name \<or>
      sublist (lower column_name) (lower col) \<or>
      sublist (lower col) (lower column_name))"

definition resolve_column :: "string \<Rightarrow> row_data \<Rightarrow> (string \<times> cell) option" where
  "resolve_column column_name row =
     (case find_mapped (mapped_columns_for column_name) row of
        Some hit \<Rightarrow> Some hit
      | None \<Rightarrow> find_item (standard_match column_name) row)"

definition actual_text :: "runtime \<Rightarrow> cell \<Rightarrow> string" where
  "actual_text rt actual_value =
     (if actual_value = CNone \<or> actual_value = CNaN then [] else strip (py_str rt actual_value))"

definition not_met :: "runtime \<Rightarrow> string \<Rightarrow> string \<Rightarrow> string \<Rightarrow> string list \<Rightarrow> string" where
  "not_met rt column_name actual_str what expected_values =
     ''Applies If not met: '' @ column_name @ '' is '' @ [CHR 0x27] @ actual_str @ [CHR 0x27] @
     '', '' @ what @ '' '' @ repr_list rt expected_values"

fun condition_failure :: "runtime \<Rightarrow> condition \<Rightarrow> string \<Rightarrow> string option" where
  \<comment> \<open>the message of a condition that the resolved value fails, \<open>None\<close> when it passes\<close>
  "condition_failure rt (column_name, Equals, evs) actual_str =
     (if list_ex (\<lambda>ev. lower actual_str = lower ev) evs then None
      else Some (not_met rt column_name actual_str ''expected one of'' evs))"
| "condition_failure rt (column_name, DoesNotEqual, evs) actual_str =
     (if list_all (\<lambda>ev. lower actual_str \<noteq> lower ev) evs then None
      else Some (not_met rt column_name actual_str ''should not be one of'' evs))"
| "condition_failure rt (column_name, StartsWith, evs) actual_str =
     (if list_ex (\<lambda>ev. prefix (lower ev) (lower actual_str)) evs then None
      else Some (not_met rt column_name actual_str ''should start with one of'' evs))"
| "condition_failure rt (column_name, Contains, evs) actual_str =
     (if list_ex (\<lambda>ev. sublist (lower ev) (lower actual_str)) evs then None
      else Some (not_met rt column_name actual_str ''should contain one of'' evs))"
| "condition_failure rt (column_name, DoesNotContain, evs) actual_str =
     (if list_all (\<lambda>ev. \<not> sublist (lower ev) (lower actual_str)) evs then None
      else Some (not_met rt column_name actual_str ''should not contain any of'' evs))"

definition column_not_found :: "string \<Rightarrow> string \<Rightarrow> string" where
  "column_not_found column_name etof_number =
     ''Column '' @ [CHR 0x27] @ column_name @ [CHR 0x27] @
     '' not found in shipment data for ETOF '' @ etof_number"

fun check_applies_if_condition ::
  "runtime \<Rightarrow> condition list \<Rightarrow> string \<Rightarrow> row_data \<Rightarrow> bool \<times> string option" where
  "check_applies_if_condition rt [] etof_number row = (True, None)"
| "check_applies_if_condition rt ((column_name, kind, evs) # conditions) etof_number row =
     (case resolve_column column_name row of
        None \<Rightarrow> (False, Some (column_not_found column_name etof_number))
      | Some (matched_column, actual_value) \<Rightarrow>
          (case condition_failure rt (column_name, kind, evs) (actual_text rt actual_value) of
             Some reason \<Rightarrow> (False, Some reason)
           | None \<Rightarrow> check_applies_if_condition rt conditions etof_number row))"

section \<open>Tables\<close>

text \<open>
  A \<open>DataFrame\<close> is its list of column names and its rows, each row a dictionary from
  column name to cell.
\<close>

record dataframe =
  df_columns :: "string list"
  df_rows :: "row_data list"

definition df_empty :: "dataframe \<Rightarrow> bool" where
  \<comment> \<open>\<open>df.empty\<close>\<close>
  "df_empty df = (df_columns df = [] \<or> df_rows df = [])"

definition row_get :: "row_data \<Rightarrow> string \<Rightarrow> cell \<Rightarrow> cell" where
  \<comment> \<open>\<open>row.get(col, default)\<close>\<close>
  "row_get row col dflt = (case map_of row col of Some v \<Rightarrow> v | None \<Rightarrow> dflt)"

definition opt_get :: "row_data \<Rightarrow> string option \<Rightarrow> cell" where
  \<comment> \<open>\<open>row.get(col, '') if col else ''\<close>\<close>
  "opt_get row col = (case col of None \<Rightarrow> CStr [] | Some c \<Rightarrow> row_get row c (CStr []))"

definition has2 :: "string \<Rightarrow> string \<Rightarrow> string \<Rightarrow> bool" where
  \<comment> \<open>\<open>a in col.lower() and b in col.lower()\<close>\<close>
  "has2 a b col = (sublist a (lower col) \<and> sublist b (lower col))"

section \<open>Cost matcher\<close>

type_synonym cost_match = "string \<times> cell \<times> cell"
  \<comment> \<open>(cost name, Rate By, Applies If)\<close>

definition paren_suffix :: regex where
  \<comment> \<open>\<^verbatim>\<open>\s*\([^)]*\)\s*$\<close>\<close>
  "paren_suffix =
     seq [Star WS, Cls (Ch CHR ''(''), Star (NotCh CHR '')''), Cls (Ch CHR '')''), Star WS, Eos]"

definition base_name :: "string \<Rightarrow> string" where
  \<comment> \<open>\<open>re.sub(r'\s*\([^)]*\)\s*$', '', name).strip()\<close>\<close>
  "base_name name = strip (re_sub_empty False paren_suffix name)"

definition is_match :: "string \<Rightarrow> string \<Rightarrow> bool" where
  \<comment> \<open>the test \<open>is_match\<close> of both matchers, on the two lower-cased names\<close>
  "is_match cost_type_clean cost_name_lower =
     (cost_name_lower = cost_type_clean \<or>
      base_name cost_name_lower = base_name cost_type_clean \<or>
      prefix cost_type_clean cost_name_lower \<or>
      prefix cost_name_lower cost_type_clean)"

fun discover_cost_columns ::
  "string list \<Rightarrow> string option \<times> string option \<times> string option \<Rightarrow>
   string option \<times> string option \<times> string option" where
  \<comment> \<open>the loop over the columns with its \<open>elif\<close> chain; a later column replaces an earlier one\<close>
  "discover_cost_columns [] found = found"
| "discover_cost_columns (col # cols) (cost_name_col, rate_by_col, applies_if_col) =
     (if has2 ''cost'' ''name'' col
      then discover_cost_columns cols (Some col, rate_by_col, applies_if_col)
      else if has2 ''rate'' ''by'' col
      then discover_cost_columns cols (cost_name_col, Some col, applies_if_col)
      else if has2 ''applies'' ''if'' col
      then discover_cost_columns cols (cost_name_col, rate_by_col, Some col)
      else discover_cost_columns cols (cost_name_col, rate_by_col, applies_if_col))"

fun matching_rows ::
  "runtime \<Rightarrow> string \<Rightarrow> string \<Rightarrow> string option \<Rightarrow> string option \<Rightarrow> row_data list \<Rightarrow>
   cost_match list" where
  "matching_rows rt cost_type_clean cost_name_col rate_by_col applies_if_col [] = []"
| "matching_rows rt cost_type_clean cost_name_col rate_by_col applies_if_col (row # rows) =
     (let cost_name = strip (py_str rt (row_get row cost_name_col (CStr [])));
          cost_name_lower = lower cost_name
      in (if is_match cost_type_clean cost_name_lower
          then [(cost_name, opt_get row rate_by_col, opt_get row applies_if_col)] else []) @
         matching_rows rt cost_type_clean cost_name_col rate_by_col applies_if_col rows)"

definition get_all_matching_cost_conditions ::
  "runtime \<Rightarrow> string \<Rightarrow> dataframe option \<Rightarrow> cost_match list" where
  "get_all_matching_cost_conditions rt cost_type df_cost_conditions =
     (case df_cost_conditions of
        None \<Rightarrow> []
      | Some df \<Rightarrow>
          if df_empty df then []
          else (case discover_cost_columns (df_columns df) (None, None, None) of
                  (None, _, _) \<Rightarrow> []
                | (Some cost_name_col, rate_by_col, applies_if_col) \<Rightarrow>
                    matching_rows rt (lower (strip cost_type)) cost_name_col rate_by_col
                      applies_if_col (df_rows df)))"

fun first_max :: "('a \<Rightarrow> nat) \<Rightarrow> 'a \<Rightarrow> 'a list \<Rightarrow> 'a" where
  \<comment> \<open>\<open>max(best # xs, key=key)\<close>: the first of the largest\<close>
  "first_max key best [] = best"
| "first_max key best (x # xs) = first_max key (if key best < key x then x else best) xs"

fun first_min :: "('a \<Rightarrow> nat) \<Rightarrow> 'a \<Rightarrow> 'a list \<Rightarrow> 'a" where
  \<comment> \<open>\<open>min(best # xs, key=key)\<close>: the first of the smallest\<close>
  "first_min key best [] = best"
| "first_min key best (x # xs) = first_min key (if key x < key best then x else best) xs"

fun classify ::
  "runtime \<Rightarrow> row_data \<Rightarrow> ('m \<Rightarrow> cell) \<Rightarrow> 'm list \<Rightarrow> 'm list \<times> 'm list" where
  \<comment> \<open>the loop that fills \<open>matches_with_conditions_met\<close> and \<open>matches_without_conditions\<close>\<close>
  "classify rt etof_row_data applies_if_of [] = ([], [])"
| "classify rt etof_row_data applies_if_of (m # ms) =
     (let (met, without) = classify rt etof_row_data applies_if_of ms;
          parsed_conditions = parse_applies_if_condition rt (applies_if_of m)
      in if parsed_conditions = [] then (met, m # without)
         else if etof_row_data \<noteq> []
         then (if fst (check_applies_if_condition rt parsed_conditions ''check'' etof_row_data)
               then (m # met, without) else (met, without))
         else (met, m # without))"

definition name_len :: "cost_match \<Rightarrow> nat" where
  "name_len m = length (fst m)"

definition find_best_matching_cost ::
  "runtime \<Rightarrow> string \<Rightarrow> dataframe option \<Rightarrow> row_data \<Rightarrow> cost_match option" where
  \<comment> \<open>\<open>None\<close> stands for \<open>(None, None, None)\<close>\<close>
  "find_best_matching_cost rt cost_type df_cost_conditions etof_row_data =
     (case get_all_matching_cost_conditions rt cost_type df_cost_conditions of
        [] \<Rightarrow> None
      | [m] \<Rightarrow> Some m
      | first # others \<Rightarrow>
          (case classify rt etof_row_data (\<lambda>m. snd (snd m)) (first # others) of
             (m # met, _) \<Rightarrow> Some (first_max name_len m met)
           | ([], w # without) \<Rightarrow> Some (first_min name_len w without)
           | ([], []) \<Rightarrow> Some first))"

fun find_row :: "(row_data \<Rightarrow> bool) \<Rightarrow> row_data list \<Rightarrow> row_data option" where
  "find_row test [] = None"
| "find_row test (row # rows) = (if test row then Some row else find_row test rows)"

definition get_cost_conditions_for_cost_type ::
  "runtime \<Rightarrow> string \<Rightarrow> dataframe option \<Rightarrow> cell \<times> cell" where
  \<comment> \<open>\<open>(CNone, CNone)\<close> stands for \<open>(None, None)\<close>\<close>
  "get_cost_conditions_for_cost_type rt cost_type df_cost_conditions =
     (case df_cost_conditions of
        None \<Rightarrow> (CNone, CNone)
      | Some df \<Rightarrow>
          if df_empty df then (CNone, CNone)
          else (case find (has2 ''cost'' ''name'') (df_columns df) of
                  None \<Rightarrow> (CNone, CNone)
                | Some cost_name_col \<Rightarrow>
                    (let rate_by_col = find (has2 ''rate'' ''by'') (df_columns df);
                         applies_if_col = find (has2 ''applies'' ''if'') (df_columns df);
                         cost_type_clean = lower (strip cost_type);
                         name_of = (\<lambda>row. strip (py_str rt (row_get row cost_name_col (CStr []))))
                     in case find_row (\<lambda>row. lower (name_of row) = cost_type_clean) (df_rows df) of
                          Some row \<Rightarrow> (opt_get row rate_by_col, opt_get row applies_if_col)
                        | None \<Rightarrow>
                            (case find_row (\<lambda>row. sublist cost_type_clean (lower (name_of row)) \<or>
                                                sublist (lower (name_of row)) cost_type_clean)
                                    (df_rows df) of
                               Some row \<Rightarrow> (opt_get row rate_by_col, opt_get row applies_if_col)
                             | None \<Rightarrow> (CNone, CNone)))))"

section \<open>Accessorial cost matcher\<close>

record acc_cols =
  cost_name_col :: "string option"
  rate_by_col :: "string option"
  applies_if_col :: "string option"
  lane_col :: "string option"
  price_flat_col :: "string option"
  price_per_unit_col :: "string option"
  has_min_flat_col :: "string option"

definition no_acc_cols :: acc_cols where
  "no_acc_cols = \<lparr>cost_name_col = None, rate_by_col = None, applies_if_col = None,
     lane_col = None, price_flat_col = None, price_per_unit_col = None,
     has_min_flat_col = None\<rparr>"

definition acc_col_step :: "string \<Rightarrow> acc_cols \<Rightarrow> acc_cols" where
  "acc_col_step col cs =
     (let col_lower = lower col
      in if sublist ''cost'' col_lower \<and> sublist ''name'' col_lower
         then cs\<lparr>cost_name_col := Some col\<rparr>
         else if sublist ''rate'' col_lower \<and> sublist ''by'' col_lower
         then cs\<lparr>rate_by_col := Some col\<rparr>
         else if sublist ''applies'' col_lower \<and> sublist ''if'' col_lower
         then cs\<lparr>applies_if_col := Some col\<rparr>
         else if sublist ''lane'' col_lower
         then cs\<lparr>lane_col := Some col\<rparr>
         else if col_lower = ''price flat'' \<or> sublist ''price flat'' col_lower
         then cs\<lparr>price_flat_col := Some col\<rparr>
         else if sublist ''per unit'' col_lower \<or> sublist ''price per'' col_lower
         then cs\<lparr>price_per_unit_col := Some col\<rparr>
         else if sublist ''has min'' col_lower \<or> sublist ''min flat'' col_lower
         then cs\<lparr>has_min_flat_col := Some col\<rparr>
         else cs)"

record acc_match =
  acc_cost_name :: string
  acc_rate_by :: string
  acc_applies_if :: string
  acc_price_flat :: "pyfloat option"
  acc_price_per_unit :: "pyfloat option"
  acc_has_min_flat :: bool
  acc_lane_num :: "int option"

definition text_if_present :: "runtime \<Rightarrow> row_data \<Rightarrow> string option \<Rightarrow> string" where
  \<comment> \<open>\<open>str(row.get(col, '')).strip() if col and pd.notna(row.get(col)) else ''\<close>\<close>
  "text_if_present rt row col =
     (case col of
        None \<Rightarrow> []
      | Some c \<Rightarrow> if \<not> isna (row_get row c CNone) then strip (py_str rt (row_get row c (CStr [])))
                  else [])"

definition lane_of :: "runtime \<Rightarrow> row_data \<Rightarrow> string option \<Rightarrow> int option" where
  \<comment> \<open>\<open>int(float(row.get(lane_col)))\<close>, \<open>None\<close> when the cell is missing or not a number\<close>
  "lane_of rt row col =
     (case col of
        None \<Rightarrow> None
      | Some c \<Rightarrow>
          (let v = row_get row c CNone
           in if isna v then None
              else (case py_float rt v of Some (Fin r) \<Rightarrow> Some (trunc r) | _ \<Rightarrow> None)))"

definition price_of :: "runtime \<Rightarrow> row_data \<Rightarrow> string option \<Rightarrow> pyfloat option" where
  "price_of rt row col =
     (case col of
        None \<Rightarrow> None
      | Some c \<Rightarrow>
          (let v = row_get row c CNone
           in if isna v then None
              else if strip (py_str rt v) \<noteq> [] then py_float rt v else None))"

definition flag_of :: "runtime \<Rightarrow> row_data \<Rightarrow> string option \<Rightarrow> bool" where
  "flag_of rt row col =
     (case col of
        None \<Rightarrow> False
      | Some c \<Rightarrow>
          (let v = row_get row c CNone
           in if isna v then False
              else lower (strip (py_str rt v)) \<in> set [''yes'', ''true'', ''1'', ''y'']))"

fun acc_matching_rows :: "runtime \<Rightarrow> string \<Rightarrow> string \<Rightarrow> acc_cols \<Rightarrow> row_data list \<Rightarrow> acc_match list" where
  "acc_matching_rows rt cost_type_clean name_col cs [] = []"
| "acc_matching_rows rt cost_type_clean name_col cs (row # rows) =
     (let cost_name = strip (py_str rt (row_get row name_col (CStr [])));
          cost_name_lower = lower cost_name
      in (if is_match cost_type_clean cost_name_lower
          then [\<lparr>acc_cost_name = cost_name,
                 acc_rate_by = text_if_present rt row (rate_by_col cs),
                 acc_applies_if = text_if_present rt row (applies_if_col cs),
                 acc_price_flat = price_of rt row (price_flat_col cs),
                 acc_price_per_unit = price_of rt row (price_per_unit_col cs),
                 acc_has_min_flat = flag_of rt row (has_min_flat_col cs),
                 acc_lane_num = lane_of rt row (lane_col cs)\<rparr>]
          else []) @
         acc_matching_rows rt cost_type_clean name_col cs rows)"

definition get_all_matching_accessorial_costs ::
  "runtime \<Rightarrow> string \<Rightarrow> dataframe option \<Rightarrow> acc_match list" where
  "get_all_matching_accessorial_costs rt cost_type df_accessorial =
     (case df_accessorial of
        None \<Rightarrow> []
      | Some df \<Rightarrow>
          if df_empty df then []
          else (let cs = fold acc_col_step (df_columns df) no_acc_cols
                in case cost_name_col cs of
                     None \<Rightarrow> []
                   | Some name_col \<Rightarrow>
                       acc_matching_rows rt (lower (strip cost_type)) name_col cs (df_rows df)))"

definition lane_filter :: "string option \<Rightarrow> acc_match list \<Rightarrow> acc_match list" where
  "lane_filter lane_number all_matches =
     filter (\<lambda>m. case (lane_number, acc_lane_num m) of
                    (Some lane, Some match_lane) \<Rightarrow> str_int match_lane = lane
                  | (_, None) \<Rightarrow> True
                  | (None, Some match_lane) \<Rightarrow> False) all_matches"

definition acc_name_len :: "acc_match \<Rightarrow> nat" where
  "acc_name_len m = length (acc_cost_name m)"

definition find_best_matching_accessorial_cost ::
  "runtime \<Rightarrow> string \<Rightarrow> dataframe option \<Rightarrow> string option \<Rightarrow> row_data \<Rightarrow> acc_match option" where
  \<comment> \<open>\<open>None\<close> stands for the tuple of six \<open>None\<close>\<close>
  "find_best_matching_accessorial_cost rt cost_type df_accessorial lane_number etof_row_data =
     (case get_all_matching_accessorial_costs rt cost_type df_accessorial of
        [] \<Rightarrow> None
      | a # as \<Rightarrow>
          (let all_matches = a # as;
               filtered = lane_filter lane_number all_matches;
               lane_matches = (if filtered = [] then all_matches else filtered)
           in case lane_matches of
                [] \<Rightarrow> None
              | [m] \<Rightarrow> Some m
              | first # others \<Rightarrow>
                  (case classify rt etof_row_data (\<lambda>m. CStr (acc_applies_if m)) (first # others) of
                     (m # met, _) \<Rightarrow> Some (first_max acc_name_len m met)
                   | ([], w # without) \<Rightarrow> Some (first_min acc_name_len w without)
                   | ([], []) \<Rightarrow> Some first)))"

section \<open>Weight tiers and rate lanes\<close>

type_synonym tier = "nat \<times> real option \<times> real"
  \<comment> \<open>(column index, exclusive lower bound, inclusive upper bound)\<close>

definition bound_str :: "runtime \<Rightarrow> real \<Rightarrow> string" where
  \<comment> \<open>\<open>int(x) if x == int(x) else x\<close>, formatted\<close>
  "bound_str rt x = (if of_int (trunc x) = x then str_int (trunc x) else repr_float rt x)"

fun scan_tiers :: "runtime \<Rightarrow> pyfloat \<Rightarrow> tier list \<Rightarrow> (nat \<times> string) option" where
  "scan_tiers rt weight [] = None"
| "scan_tiers rt weight ((col_idx, None, upper) # tiers) =
     (if fle weight (Fin upper) then Some (col_idx, ''<='' @ bound_str rt upper)
      else scan_tiers rt weight tiers)"
| "scan_tiers rt weight ((col_idx, Some lo, upper) # tiers) =
     (if flt (Fin lo) weight \<and> fle weight (Fin upper)
      then Some (col_idx, ''>'' @ bound_str rt lo @ '' <='' @ bound_str rt upper)
      else scan_tiers rt weight tiers)"

definition select_price_column_by_weight ::
  "runtime \<Rightarrow> tier list \<Rightarrow> cell \<Rightarrow> nat option \<times> string option" where
  "select_price_column_by_weight rt tiered_columns charge_weight =
     (if tiered_columns = [] \<or> charge_weight = CNone then (None, None)
      else (case py_float rt charge_weight of
              None \<Rightarrow> (None, None)
            | Some weight \<Rightarrow>
                (let sorted_tiers = sort_key (\<lambda>t. snd (snd t)) tiered_columns
                 in case scan_tiers rt weight sorted_tiers of
                      Some (col_idx, range_desc) \<Rightarrow> (Some col_idx, Some range_desc)
                    | None \<Rightarrow>
                        (let max_upper = snd (snd (last sorted_tiers))
                         in if flt (Fin max_upper) weight
                            then (None, Some (''exceeds max tier '' @ repr_float rt max_upper))
                            else (None, None)))))"

definition rate_lane_pattern :: regex where
  \<comment> \<open>\<^verbatim>\<open>Rate\s+lanes?:\s*([\d,\s]+)\<close>\<close>
  "rate_lane_pattern =
     seq [Lit ''Rate'', Plus WS, Lit ''lane'', Opt (Lit ''s''), Lit '':'', Star WS,
          Group (Plus (Or Digit (Or (Ch CHR '','') WS)))]"

fun split_char :: "char \<Rightarrow> string \<Rightarrow> string list" where
  \<comment> \<open>\<open>s.split(c)\<close>\<close>
  "split_char c [] = [[]]"
| "split_char c (x # xs) =
     (if x = c then [] # split_char c xs
      else (case split_char c xs of [] \<Rightarrow> [[x]] | h # t \<Rightarrow> (x # h) # t))"

definition extract_rate_lane :: "runtime \<Rightarrow> cell \<Rightarrow> string list" where
  "extract_rate_lane rt comment =
     (if \<not> truthy comment \<or> isna comment then []
      else (case re_search True rate_lane_pattern (py_str rt comment) of
              Some (pre, lanes_str # _, rest) \<Rightarrow>
                map strip (filter (\<lambda>l. strip l \<noteq> []) (split_char CHR '','' lanes_str))
            | _ \<Rightarrow> []))"

section \<open>Reconciliation engine: one pass of the loop of \<open>check_conditions_and_add_reason\<close>\<close>

text \<open>
  The loop reads the tables through dictionaries built before it and through three
  lookups the model takes as given: the price lookup in the rate table
  (\<open>find_cost_price_in_rate_data\<close>, with the reason it returns under \<open>return_reason\<close>),
  the two multiplier lookups, and the loading of the accessorial table of an agreement.
\<close>

datatype price_type = PriceFlat | PricePerUnit | PriceMin | PriceMax

record agreement_data =
  rate_data :: "dataframe option"
  cost_conditions :: "dataframe option"

record env =
  all_rate_costs :: "(string \<times> agreement_data) list"
  accessorial_data_for_agreement :: "string \<Rightarrow> dataframe option"
  etof_to_comment :: "string \<Rightarrow> cell option"
  etof_to_charge_weight :: "string \<Rightarrow> cell option"
  etof_to_measurement :: "string \<Rightarrow> cell option"
  etof_to_units_measurement :: "string \<Rightarrow> cell option"
  etof_to_row_data :: "string \<Rightarrow> row_data option"
  find_cost_price_in_rate_data ::
    "dataframe option \<Rightarrow> string \<Rightarrow> string \<Rightarrow> price_type \<Rightarrow> cell \<Rightarrow> cell \<times> cell \<times> string option"
  extract_measurement_value :: "string \<Rightarrow> cell \<Rightarrow> cell \<Rightarrow> cell \<times> cell \<times> bool"
  find_value_in_etof_columns :: "string \<Rightarrow> row_data \<Rightarrow> cell \<times> cell \<times> bool"

record mismatch_row =
  cost_type_cell :: cell
  etof_cell :: cell
  agreement_cell :: cell
  comment_cell :: cell
  \<comment> \<open>the cells under the columns found for cost type, ETOF number, carrier agreement
      and comment; \<open>CNone\<close> where the table has no such column\<close>

definition text_of :: "runtime \<Rightarrow> cell \<Rightarrow> string" where
  \<comment> \<open>\<open>str(x).strip() if pd.notna(x) else ''\<close>\<close>
  "text_of rt x = (if \<not> isna x then strip (py_str rt x) else [])"

definition display_text :: "runtime \<Rightarrow> cell \<Rightarrow> string" where
  \<comment> \<open>\<open>str(x).strip() if x and pd.notna(x) else ''\<close>\<close>
  "display_text rt x = (if truthy x \<and> \<not> isna x then strip (py_str rt x) else [])"

definition lookup_agreement :: "(string \<times> agreement_data) list \<Rightarrow> string \<Rightarrow> agreement_data option" where
  "lookup_agreement rate_costs agreement =
     (case map_of rate_costs agreement of
        Some d \<Rightarrow> Some d
      | None \<Rightarrow>
          if agreement \<noteq> []
          then map_option snd
                 (find (\<lambda>(ag_key, d). sublist ag_key agreement \<or> sublist agreement ag_key) rate_costs)
          else None)"

definition quoted :: "string \<Rightarrow> string" where
  "quoted s = [CHR 0x27] @ s @ [CHR 0x27]"

fun join :: "string \<Rightarrow> string list \<Rightarrow> string" where
  \<comment> \<open>\<open>sep.join(xs)\<close>\<close>
  "join sep [] = []"
| "join sep [x] = x"
| "join sep (x # xs) = x @ sep @ join sep xs"

definition str_pyfloat :: "runtime \<Rightarrow> pyfloat \<Rightarrow> string" where
  "str_pyfloat rt x = (case x of Fin r \<Rightarrow> repr_float rt r | FNaN \<Rightarrow> ''nan'')"

definition multiple_lanes_reason :: "string list \<Rightarrow> string" where
  "multiple_lanes_reason lanes =
     ''Multiple rate lanes found ('' @ join '', '' lanes @ '') - manual check required''"

definition is_tier_column :: "runtime \<Rightarrow> cell \<Rightarrow> bool" where
  \<comment> \<open>\<open>price_col and ('<=' in str(price_col) or '>' in str(price_col))\<close>\<close>
  "is_tier_column rt price_col =
     (truthy price_col \<and> (sublist ''<='' (py_str rt price_col) \<or> sublist ''>'' (py_str rt price_col)))"

definition not_covered :: "string option \<Rightarrow> string" where
  \<comment> \<open>\<open>price_reason if price_reason else "The cost is not covered ..."\<close>\<close>
  "not_covered price_reason =
     (case price_reason of
        Some r \<Rightarrow> if r \<noteq> [] then r else ''The cost is not covered for the provided shipment details.''
      | None \<Rightarrow> ''The cost is not covered for the provided shipment details.'')"

definition calc_text :: "runtime \<Rightarrow> string \<Rightarrow> cell \<Rightarrow> cell \<Rightarrow> pyfloat \<Rightarrow> string" where
  \<comment> \<open>\<open>(Calculated: {price_per_unit} * {multiplier_value} ({multiplier_name}) = {total_cost:.2f}\<close>\<close>
  "calc_text rt ppu multiplier_value multiplier_name total_cost =
     ''(Calculated: '' @ ppu @ '' * '' @ py_str rt multiplier_value @ '' ('' @
     py_str rt multiplier_name @ '') = '' @ fmt_2f rt total_cost"

definition min_max_reason ::
  "runtime \<Rightarrow> cell \<Rightarrow> cell \<Rightarrow> cell \<Rightarrow> cell \<Rightarrow> pyfloat \<Rightarrow> cell \<Rightarrow> cell \<Rightarrow> string" where
  \<comment> \<open>from \<open>total_cost = price_float * multiplier_float\<close> to the reason: the MIN check, the
      MAX check when MIN was not applied, the plain total otherwise\<close>
  "min_max_reason rt price_per_unit price_col multiplier_value multiplier_name total_cost
       min_price max_price =
     (let min_applied =
            (min_price \<noteq> CNone \<and>
             (case py_float rt min_price of
                Some min_price_float \<Rightarrow> flt total_cost min_price_float
              | None \<Rightarrow> False));
          max_applied =
            (\<not> min_applied \<and> max_price \<noteq> CNone \<and>
             (case py_float rt max_price of
                Some max_price_float \<Rightarrow> flt max_price_float total_cost
              | None \<Rightarrow> False))
      in if min_applied
         then ''MIN price applied - '' @ py_str rt min_price @ '' '' @
              calc_text rt (py_str rt price_per_unit) multiplier_value multiplier_name total_cost @
              '', but MIN is higher)''
         else if max_applied
         then ''MAX price applied - '' @ py_str rt max_price @ '' '' @
              calc_text rt (py_str rt price_per_unit) multiplier_value multiplier_name total_cost @
              '', but MAX is lower)''
         else ''Cost per unit: '' @ py_str rt price_per_unit @
              (if is_tier_column rt price_col
               then '' (weight tier: '' @ py_str rt price_col @ '')'' else []) @
              '', '' @ py_str rt multiplier_name @ '': '' @ py_str rt multiplier_value @
              '', Total: '' @ py_str rt price_per_unit @ '' * '' @ py_str rt multiplier_value @
              '' = '' @ fmt_2f rt total_cost)"

definition multiplier_present :: "cell \<Rightarrow> bool" where
  \<comment> \<open>\<open>multiplier_value is not None and not (isinstance(multiplier_value, float) and
      pd.isna(multiplier_value))\<close>\<close>
  "multiplier_present multiplier_value = (multiplier_value \<noteq> CNone \<and> multiplier_value \<noteq> CNaN)"

definition multiplier_missing :: "runtime \<Rightarrow> string \<Rightarrow> cell \<Rightarrow> string option \<Rightarrow> string \<Rightarrow> string" where
  "multiplier_missing rt head multiplier_name multiplier_not_found_reason etof_number =
     (case multiplier_not_found_reason of
        Some r \<Rightarrow> head @ '', but '' @ r
      | None \<Rightarrow> head @ '', '' @ py_str rt multiplier_name @ '' not found for ETOF '' @ etof_number)"

definition per_unit_reason ::
  "runtime \<Rightarrow> cell \<Rightarrow> cell \<Rightarrow> cell \<Rightarrow> cell \<Rightarrow> string option \<Rightarrow> string \<Rightarrow> cell \<Rightarrow> cell \<Rightarrow> string" where
  \<comment> \<open>the branch \<open>Normal per_unit price\<close> of the rate-card path\<close>
  "per_unit_reason rt price_per_unit price_col multiplier_value multiplier_name
       multiplier_not_found_reason etof_number min_price max_price =
     (case py_float rt price_per_unit of
        None \<Rightarrow> ''Cost per unit: '' @ py_str rt price_per_unit @
                 '' (could not calculate - invalid price format)''
      | Some price_float \<Rightarrow>
          if multiplier_present multiplier_value
          then (case py_float rt multiplier_value of
                  None \<Rightarrow> ''Cost per unit: '' @ py_str rt price_per_unit @ '', '' @
                           py_str rt multiplier_name @ '': '' @ py_str rt multiplier_value @
                           '' (could not calculate - invalid multiplier value)''
                | Some multiplier_float \<Rightarrow>
                    min_max_reason rt price_per_unit price_col multiplier_value multiplier_name
                      (fmul price_float multiplier_float) min_price max_price)
          else multiplier_missing rt (''Cost per unit: '' @ py_str rt price_per_unit)
                 multiplier_name multiplier_not_found_reason etof_number)"

definition acc_per_unit_reason ::
  "runtime \<Rightarrow> pyfloat option \<Rightarrow> pyfloat option \<Rightarrow> bool \<Rightarrow> cell \<Rightarrow> cell \<Rightarrow> string option \<Rightarrow>
   string \<Rightarrow> string" where
  \<comment> \<open>the accessorial branch of the per-unit path: a MIN (the flat price, when the entry
      has MIN Flat) and no MAX\<close>
  "acc_per_unit_reason rt accessorial_price_per_unit accessorial_price_flat
       accessorial_has_min_flat multiplier_value multiplier_name multiplier_not_found_reason
       etof_number =
     (let min_price = (if accessorial_has_min_flat then accessorial_price_flat else None)
      in case accessorial_price_per_unit of
           Some price_float \<Rightarrow>
             (let ppu = str_pyfloat rt price_float
              in if multiplier_present multiplier_value
                 then (case py_float rt multiplier_value of
                         None \<Rightarrow> ''Cost per unit (accessorial): '' @ ppu @ '', '' @
                                  py_str rt multiplier_name @ '': '' @ py_str rt multiplier_value @
                                  '' (could not calculate - invalid multiplier value)''
                       | Some multiplier_float \<Rightarrow>
                           (let total_cost = fmul price_float multiplier_float
                            in case min_price of
                                 Some min_price_float \<Rightarrow>
                                   if flt total_cost min_price_float
                                   then ''MIN price applied (accessorial) - '' @
                                        str_pyfloat rt min_price_float @ '' '' @
                                        calc_text rt ppu multiplier_value multiplier_name total_cost @
                                        '', but MIN is higher)''
                                   else ''Cost per unit (accessorial): '' @ ppu @ '', '' @
                                        py_str rt multiplier_name @ '': '' @
                                        py_str rt multiplier_value @ '', Total: '' @ ppu @ '' * '' @
                                        py_str rt multiplier_value @ '' = '' @ fmt_2f rt total_cost
                               | None \<Rightarrow>
                                   ''Cost per unit (accessorial): '' @ ppu @ '', '' @
                                   py_str rt multiplier_name @ '': '' @
                                   py_str rt multiplier_value @ '', Total: '' @ ppu @ '' * '' @
                                   py_str rt multiplier_value @ '' = '' @ fmt_2f rt total_cost))
                 else multiplier_missing rt (''Cost per unit (accessorial): '' @ ppu)
                        multiplier_name multiplier_not_found_reason etof_number)
         | None \<Rightarrow>
             (case accessorial_price_flat of
                Some flat \<Rightarrow> ''The cost is pre-calculated by rate card (accessorial) - '' @
                             str_pyfloat rt flat @ '' flat.''
              | None \<Rightarrow> ''The cost is not covered for the provided shipment details '' @
                        ''(accessorial - no price found).''))"

function replace_str :: "string \<Rightarrow> string \<Rightarrow> string \<Rightarrow> string" where
  \<comment> \<open>\<open>s.replace(old, new)\<close> for a non-empty \<open>old\<close>\<close>
  "replace_str old new [] = []"
| "replace_str old new (c # s) =
     (if old \<noteq> [] \<and> prefix old (c # s)
      then new @ replace_str old new (drop (length old) (c # s))
      else c # replace_str old new s)"
  by pat_completeness auto
termination
  by (relation "measure (\<lambda>(old, new, s). length s)") auto

definition get_or :: "(string \<Rightarrow> cell option) \<Rightarrow> string \<Rightarrow> cell \<Rightarrow> cell" where
  \<comment> \<open>\<open>d.get(key, default)\<close>\<close>
  "get_or d key dflt = (case d key of Some v \<Rightarrow> v | None \<Rightarrow> dflt)"

definition row_data_for :: "env \<Rightarrow> string \<Rightarrow> row_data" where
  \<comment> \<open>\<open>etof_to_row_data.get(etof_number, {})\<close>\<close>
  "row_data_for e etof_number = (case etof_to_row_data e etof_number of Some r \<Rightarrow> r | None \<Rightarrow> [])"

definition comment_branch :: "runtime \<Rightarrow> env \<Rightarrow> string \<Rightarrow> string \<Rightarrow> string \<Rightarrow> string \<times> string \<times> string" where
  \<comment> \<open>a row with an existing comment: Rate By and Applies If for display, the comment as Reason\<close>
  "comment_branch rt e cost_type agreement existing_comment =
     (case lookup_agreement (all_rate_costs e) agreement of
        Some agreement_data \<Rightarrow>
          (let (rate_by_lookup, applies_if_lookup) =
                 get_cost_conditions_for_cost_type rt cost_type (cost_conditions agreement_data)
           in (display_text rt rate_by_lookup, display_text rt applies_if_lookup, existing_comment))
      | None \<Rightarrow> ([], [], existing_comment))"

record resolved =
  use_accessorial :: bool
  matched_cost_name :: "string option"
  res_rate_by :: string
  res_applies_if :: string
  accessorial_price_flat :: "pyfloat option"
  accessorial_price_per_unit :: "pyfloat option"
  accessorial_has_min_flat :: bool

definition resolve_cost :: "runtime \<Rightarrow> env \<Rightarrow> agreement_data \<Rightarrow> string \<Rightarrow> string \<Rightarrow> string \<Rightarrow> resolved option" where
  \<comment> \<open>the cost conditions of the rate card, else the accessorial costs; \<open>None\<close> when neither
      has the cost type\<close>
  "resolve_cost rt e agreement_data cost_type etof_number agreement =
     (let etof_row_data = row_data_for e etof_number;
          best = find_best_matching_cost rt cost_type (cost_conditions agreement_data) etof_row_data;
          name = map_option fst best;
          rate_by = (case best of Some (n, rb, ai) \<Rightarrow> display_text rt rb | None \<Rightarrow> []);
          applies_if = (case best of Some (n, rb, ai) \<Rightarrow> display_text rt ai | None \<Rightarrow> [])
      in if rate_by = [] \<and> applies_if = []
         then (case accessorial_data_for_agreement e agreement of
                 None \<Rightarrow> None
               | Some df_accessorial \<Rightarrow>
                   (let comment = get_or (etof_to_comment e) etof_number CNone;
                        lanes = (if truthy comment then extract_rate_lane rt comment else []);
                        lane_number = (case lanes of [l] \<Rightarrow> Some l | _ \<Rightarrow> None)
                    in case find_best_matching_accessorial_cost rt cost_type (Some df_accessorial)
                              lane_number etof_row_data of
                         None \<Rightarrow> None
                       | Some a \<Rightarrow>
                           if acc_rate_by a \<noteq> [] \<or> acc_applies_if a \<noteq> [] \<or>
                              acc_price_flat a \<noteq> None \<or> acc_price_per_unit a \<noteq> None
                           then Some \<lparr>use_accessorial = True,
                                      matched_cost_name = Some (acc_cost_name a),
                                      res_rate_by = acc_rate_by a,
                                      res_applies_if = acc_applies_if a,
                                      accessorial_price_flat = acc_price_flat a,
                                      accessorial_price_per_unit = acc_price_per_unit a,
                                      accessorial_has_min_flat = acc_has_min_flat a\<rparr>
                           else None))
         else Some \<lparr>use_accessorial = False, matched_cost_name = name, res_rate_by = rate_by,
                     res_applies_if = applies_if, accessorial_price_flat = None,
                     accessorial_price_per_unit = None, accessorial_has_min_flat = False\<rparr>)"

definition applies_if_gate :: "runtime \<Rightarrow> env \<Rightarrow> string \<Rightarrow> string \<Rightarrow> string option" where
  \<comment> \<open>the reason of a row whose Applies If is not met, \<open>None\<close> when the row goes on\<close>
  "applies_if_gate rt e applies_if etof_number =
     (let applies_if_lower = lower applies_if;
          no_condition = (applies_if = [] \<or> sublist ''no condition'' applies_if_lower \<or>
                          applies_if_lower = ''nan'');
          has_real_conditions =
            list_ex (\<lambda>kw. sublist kw applies_if_lower)
              [''equals'', ''starts with'', ''starts'', ''contains'', ''does not equal''];
          is_no_applies_if_condition =
            (no_condition \<or> (sublist ''applies if invoiced'' applies_if_lower \<and> \<not> has_real_conditions))
      in if is_no_applies_if_condition then None
         else (case parse_applies_if_condition rt (CStr applies_if) of
                 [] \<Rightarrow> None
               | c # cs \<Rightarrow>
                   (let etof_row_data = row_data_for e etof_number;
                        (applies_if_met, applies_if_reason) =
                          (if etof_row_data = []
                           then (False, Some (''ETOF '' @ etof_number @
                                   '' not found in lc_etof_with_comments - cannot verify Applies If conditions''))
                           else check_applies_if_condition rt (c # cs) etof_number etof_row_data)
                    in if applies_if_met then None
                       else (case applies_if_reason of
                               Some r \<Rightarrow> if r \<noteq> [] then Some r
                                         else Some (''Applies If condition not met: '' @ take 100 applies_if)
                             | None \<Rightarrow> Some (''Applies If condition not met: '' @ take 100 applies_if)))))"

definition per_shipment_branch :: "runtime \<Rightarrow> env \<Rightarrow> agreement_data \<Rightarrow> resolved \<Rightarrow> string \<Rightarrow> string \<Rightarrow> string" where
  "per_shipment_branch rt e agreement_data res cost_name_for_lookup etof_number =
     (if use_accessorial res
      then (case accessorial_price_flat res of
              Some flat \<Rightarrow> ''The cost is pre-calculated by rate card (accessorial) - '' @
                           str_pyfloat rt flat @ '' flat.''
            | None \<Rightarrow>
                (case accessorial_price_per_unit res of
                   Some ppu \<Rightarrow> ''Cost per unit (accessorial): '' @ str_pyfloat rt ppu
                 | None \<Rightarrow> ''The cost is not covered for the provided shipment details '' @
                           ''(accessorial - no price found).''))
      else (let comment = get_or (etof_to_comment e) etof_number CNone
            in if truthy comment
               then (let lanes = extract_rate_lane rt comment
                     in case lanes of
                          [] \<Rightarrow> ''Could not extract rate lane from comment: '' @ py_str rt comment
                        | [lane_number] \<Rightarrow>
                            (let charge_weight_for_lookup =
                                   get_or (etof_to_charge_weight e) etof_number CNone;
                                 (price, price_col, price_reason) =
                                   find_cost_price_in_rate_data e (rate_data agreement_data)
                                     lane_number cost_name_for_lookup PriceFlat charge_weight_for_lookup
                             in if price \<noteq> CNone
                                then (if is_tier_column rt price_col
                                      then ''The cost is pre-calculated by rate card - '' @
                                           py_str rt price @ '' flat (weight tier: '' @
                                           py_str rt price_col @ '').''
                                      else ''The cost is pre-calculated by rate card - '' @
                                           py_str rt price @ '' flat.'')
                                else not_covered price_reason)
                        | _ \<Rightarrow> multiple_lanes_reason lanes)
               else ''No comment found for ETOF '' @ etof_number))"

definition resolve_multiplier :: "runtime \<Rightarrow> env \<Rightarrow> string \<Rightarrow> string \<Rightarrow> bool \<Rightarrow> cell \<times> cell \<times> string option" where
  \<comment> \<open>(multiplier value, multiplier name, the reason when no multiplier was found)\<close>
  "resolve_multiplier rt e rate_by etof_number is_weight_based =
     (if is_weight_based
      then (let charge_weight = get_or (etof_to_charge_weight e) etof_number CNone
            in (charge_weight, CStr ''CHARGE_WEIGHT'',
                if charge_weight = CNone \<or> charge_weight = CNaN
                then Some (''CHARGE_WEIGHT not found for ETOF '' @ etof_number) else None))
      else (let measurement_str = get_or (etof_to_measurement e) etof_number (CStr []);
                units_measurement_str = get_or (etof_to_units_measurement e) etof_number (CStr []);
                (meas_name, meas_value, meas_found) =
                  extract_measurement_value e rate_by measurement_str units_measurement_str
            in if meas_found then (meas_value, meas_name, None)
               else (let (col_name, col_value, col_found) =
                           find_value_in_etof_columns e rate_by (row_data_for e etof_number)
                     in if col_found then (col_value, col_name, None)
                        else (CNone, CNone,
                              Some (quoted (py_str rt (if truthy meas_name then meas_name else col_name)) @
                                    '' not found in MEASUREMENT column or direct columns for ETOF '' @
                                    etof_number)))))"

definition per_unit_branch :: "runtime \<Rightarrow> env \<Rightarrow> agreement_data \<Rightarrow> resolved \<Rightarrow> string \<Rightarrow> string \<Rightarrow> string" where
  "per_unit_branch rt e agreement_data res cost_name_for_lookup etof_number =
     (let rate_by_lower = lower (res_rate_by res);
          is_weight_based = (sublist ''weight'' rate_by_lower \<or> sublist ''kg'' rate_by_lower \<or>
                             sublist ''chargeable'' rate_by_lower);
          comment = get_or (etof_to_comment e) etof_number CNone;
          (multiplier_value, multiplier_name, multiplier_not_found_reason) =
            resolve_multiplier rt e (res_rate_by res) etof_number is_weight_based
      in if use_accessorial res
         then acc_per_unit_reason rt (accessorial_price_per_unit res) (accessorial_price_flat res)
                (accessorial_has_min_flat res) multiplier_value multiplier_name
                multiplier_not_found_reason etof_number
         else if truthy comment
         then (let lanes = extract_rate_lane rt comment
               in case lanes of
                    [] \<Rightarrow> ''Could not extract rate lane from comment: '' @ py_str rt comment
                  | [lane_number] \<Rightarrow>
                      (let (price_per_unit, price_col, price_reason) =
                             find_cost_price_in_rate_data e (rate_data agreement_data) lane_number
                               cost_name_for_lookup PricePerUnit
                               (if is_weight_based then multiplier_value else CNone);
                           (min_price, min_price_col, min_reason) =
                             find_cost_price_in_rate_data e (rate_data agreement_data) lane_number
                               cost_name_for_lookup PriceMin CNone;
                           (max_price, max_price_col, max_reason) =
                             find_cost_price_in_rate_data e (rate_data agreement_data) lane_number
                               cost_name_for_lookup PriceMax CNone
                       in if price_per_unit \<noteq> CNone
                          then (if truthy price_col \<and> sublist ''FLAT_TIER:'' (py_str rt price_col)
                                then ''Weight-tiered flat price: '' @ py_str rt price_per_unit @
                                     '' (tier: '' @ replace_str ''FLAT_TIER:'' [] (py_str rt price_col) @
                                     '', '' @ py_str rt multiplier_name @ '': '' @
                                     py_str rt multiplier_value @ '')''
                                else per_unit_reason rt price_per_unit price_col multiplier_value
                                       multiplier_name multiplier_not_found_reason etof_number
                                       min_price max_price)
                          else not_covered price_reason)
                  | _ \<Rightarrow> multiple_lanes_reason lanes)
         else ''No comment found for ETOF '' @ etof_number)"

definition process_row :: "runtime \<Rightarrow> env \<Rightarrow> mismatch_row \<Rightarrow> string \<times> string \<times> string" where
  \<comment> \<open>one pass of the loop: the values appended to Rate By, Applies If and Reason\<close>
  "process_row rt e row =
     (let cost_type = text_of rt (cost_type_cell row);
          etof_number = text_of rt (etof_cell row);
          agreement = text_of rt (agreement_cell row);
          existing_comment = text_of rt (comment_cell row)
      in if existing_comment \<noteq> []
         then comment_branch rt e cost_type agreement existing_comment
         else (case lookup_agreement (all_rate_costs e) agreement of
                 None \<Rightarrow> ([], [], ''No rate cost data found for agreement: '' @ agreement)
               | Some agreement_data \<Rightarrow>
                   (case resolve_cost rt e agreement_data cost_type etof_number agreement of
                      None \<Rightarrow> ([], [], ''Cost type '' @ quoted cost_type @
                                        '' not found in cost conditions'')
                    | Some res \<Rightarrow>
                        (let cost_name_for_lookup =
                               (case matched_cost_name res of
                                  Some n \<Rightarrow> if n \<noteq> [] then n else cost_type
                                | None \<Rightarrow> cost_type);
                             rate_by_lower = lower (res_rate_by res)
                         in case applies_if_gate rt e (res_applies_if res) etof_number of
                              Some reason \<Rightarrow> (res_rate_by res, res_applies_if res, reason)
                            | None \<Rightarrow>
                                (res_rate_by res, res_applies_if res,
                                 if sublist ''per shipment'' rate_by_lower \<or>
                                    sublist ''shipment'' rate_by_lower
                                 then per_shipment_branch rt e agreement_data res
                                        cost_name_for_lookup etof_number
                                 else per_unit_branch rt e agreement_data res
                                        cost_name_for_lookup etof_number)))))"

section \<open>A runtime for the examples\<close>

text \<open>
  The examples below run on a runtime that formats the floats they use as Python does:
  \<open>str\<close> of a float with at most one decimal, \<open>:.2f\<close> of a non-negative float, \<open>repr\<close> of a
  list of texts without quotes or escapes; \<open>float()\<close> of a text fails.
\<close>


definition ex_repr_float :: "real \<Rightarrow> string" where
  "ex_repr_float r =
     (if of_int (trunc r) = r then str_int (trunc r) @ ''.0''
      else if of_int (trunc (10 * r)) = 10 * r \<and> 0 < r
      then str_int (trunc r) @ ''.'' @ str_int (trunc (10 * r) mod 10)
      else ''?'')"

definition ex_fmt_2f :: "pyfloat \<Rightarrow> string" where
  "ex_fmt_2f x =
     (case x of
        FNaN \<Rightarrow> ''nan''
      | Fin r \<Rightarrow>
          (let cents = \<lfloor>r * 100 + 1 / 2\<rfloor>
           in if 0 \<le> r then str_int (cents div 100) @ ''.'' @ str_int (cents mod 100 div 10) @
                              str_int (cents mod 10)
              else ''?''))"

definition ex_rt :: runtime where
  "ex_rt = \<lparr>float_of_str = (\<lambda>s. None), repr_float = ex_repr_float, fmt_2f = ex_fmt_2f,
            repr_list = (\<lambda>xs. ''['' @ join '', '' (map quoted xs) @ '']'')\<rparr>"

definition ex_no_price ::
  "dataframe option \<Rightarrow> string \<Rightarrow> string \<Rightarrow> price_type \<Rightarrow> cell \<Rightarrow> cell \<times> cell \<times> string option" where
  "ex_no_price df lane cost kind weight = (CNone, CNone, None)"

definition ex_no_measurement :: "string \<Rightarrow> cell \<Rightarrow> cell \<Rightarrow> cell \<times> cell \<times> bool" where
  "ex_no_measurement rate_by measurement units = (CNone, CNone, False)"

definition ex_no_column :: "string \<Rightarrow> row_data \<Rightarrow> cell \<times> cell \<times> bool" where
  "ex_no_column rate_by row = (CNone, CNone, False)"

definition ex_dgr_table :: dataframe where
  "ex_dgr_table =
     \<lparr>df_columns = [''Cost Name'', ''Rate By'', ''Applies If''],
      df_rows = [[(''Cost Name'', CStr ''Air DGR Fee''), (''Rate By'', CStr ''PER SHIPMENT''),
                  (''Applies If'', CStr ''No condition'')]]\<rparr>"

definition ex_env :: env where
  \<comment> \<open>one agreement with a rate card; every shipment is annotated with two rate lanes\<close>
  "ex_env =
     \<lparr>all_rate_costs = [(''RA1'', \<lparr>rate_data = None, cost_conditions = Some ex_dgr_table\<rparr>)],
      accessorial_data_for_agreement = (\<lambda>agreement. None),
      etof_to_comment = (\<lambda>etof. Some (CStr ''Rate lanes: 10, 20'')),
      etof_to_charge_weight = (\<lambda>etof. None),
      etof_to_measurement = (\<lambda>etof. None),
      etof_to_units_measurement = (\<lambda>etof. None),
      etof_to_row_data = (\<lambda>etof. None),
      find_cost_price_in_rate_data = ex_no_price,
      extract_measurement_value = ex_no_measurement,
      find_value_in_etof_columns = ex_no_column\<rparr>"



definition ex_row :: "string \<Rightarrow> cell \<Rightarrow> mismatch_row" where
  "ex_row cost_type comment =
     \<lparr>cost_type_cell = CStr cost_type, etof_cell = CStr ''E1'', agreement_cell = CStr ''RA1'',
      comment_cell = comment\<rparr>"

section \<open>Notions of the specification used to state the properties\<close>

definition in_tier :: "real \<Rightarrow> tier \<Rightarrow> bool" where
  \<comment> \<open>the tier relation of the specification: \<open>lower < weight <= upper\<close>, or
      \<open>weight <= upper\<close> for a tier without lower bound\<close>
  "in_tier w t =
     (case fst (snd t) of None \<Rightarrow> w \<le> snd (snd t) | Some lo \<Rightarrow> lo < w \<and> w \<le> snd (snd t))"

definition tier_desc :: "runtime \<Rightarrow> tier \<Rightarrow> string" where
  \<comment> \<open>the description of a tier: \<open><=200\<close>, \<open>>200 <=500\<close>\<close>
  "tier_desc rt t =
     (case fst (snd t) of
        None \<Rightarrow> ''<='' @ bound_str rt (snd (snd t))
      | Some lo \<Rightarrow> ''>'' @ bound_str rt lo @ '' <='' @ bound_str rt (snd (snd t)))"

definition ex_tiers :: "tier list" where
  \<comment> \<open>the tiers of the columns \<open><=200\<close>, \<open>>200 <=500\<close>, \<open>>500 <=1000\<close>, not in order\<close>
  "ex_tiers = [(3, Some 200, 500), (2, None, 200), (4, Some 500, 1000)]"


definition ex_delivery_table :: dataframe where
  \<comment> \<open>a cost without condition and a shorter-named variant conditioned on the city\<close>
  "ex_delivery_table =
     \<lparr>df_columns = [''Cost Name'', ''Rate By'', ''Applies If''],
      df_rows = [[(''Cost Name'', CStr ''Delivery Fee (Standard)''),
                  (''Rate By'', CStr ''PER SHIPMENT''), (''Applies If'', CStr ''No condition'')],
                 [(''Cost Name'', CStr ''Delivery Fee''), (''Rate By'', CStr ''PER SHIPMENT''),
                  (''Applies If'',
                   CStr (''1. City equals '' @ [CHR 0x27] @ ''Getafe'' @ [CHR 0x27]))]]\<rparr>"

definition parsed_of :: "runtime \<Rightarrow> cost_match \<Rightarrow> condition list" where
  \<comment> \<open>the parsed Applies If of a candidate\<close>
  "parsed_of rt m = parse_applies_if_condition rt (snd (snd m))"

definition satisfied_by :: "runtime \<Rightarrow> row_data \<Rightarrow> cost_match \<Rightarrow> bool" where
  \<comment> \<open>the candidate has a parsed condition and the shipment row satisfies it\<close>
  "satisfied_by rt row m =
     (parsed_of rt m \<noteq> [] \<and> fst (check_applies_if_condition rt (parsed_of rt m) ''check'' row))"

definition pick ::
  "cost_match list \<Rightarrow> cost_match list \<Rightarrow> cost_match \<Rightarrow> cost_match option" where
  \<comment> \<open>the choice among the candidates whose conditions are met, else among those
      without conditions, else the first candidate\<close>
  "pick mets withouts first =
     (case (mets, withouts) of
        (m # met, _) \<Rightarrow> Some (first_max name_len m met)
      | ([], w # without) \<Rightarrow> Some (first_min name_len w without)
      | ([], []) \<Rightarrow> Some first)"

fun mentions :: "string \<Rightarrow> regex \<Rightarrow> bool" where
  \<comment> \<open>the pattern has the keyword inside a literal that every match goes through\<close>
  "mentions kw (Lit l) = sublist kw (lower l)"
| "mentions kw (Cat a b) = (mentions kw a \<or> mentions kw b)"
| "mentions kw (Group a) = mentions kw a"
| "mentions kw _ = False"

fun ends_at_eos :: "regex \<Rightarrow> bool" where
  \<comment> \<open>the pattern ends with \<open>$\<close>\<close>
  "ends_at_eos Eos = True"
| "ends_at_eos (Cat a b) = ends_at_eos b"
| "ends_at_eos _ = False"

definition has_keyword :: "string \<Rightarrow> bool" where
  \<comment> \<open>the text, in lower case, has one of the words of the five comparison patterns\<close>
  "has_keyword s =
     (sublist ''equal'' (lower s) \<or> sublist ''contain'' (lower s) \<or> sublist ''start'' (lower s))"

definition comparison_patterns :: "(regex \<times> condition_type) list" where
  \<comment> \<open>the five comparison patterns in the priority order of the specification\<close>
  "comparison_patterns =
     [(not_equal_pattern, DoesNotEqual), (not_contain_pattern, DoesNotContain),
      (equals_pattern, Equals), (starts_pattern, StartsWith), (contains_pattern, Contains)]"

section \<open>Properties\<close>

subsection \<open>MIN is checked before MAX\<close>



subsection \<open>A pre-filled comment ends the processing of its row\<close>

lemma text_of_CStr: "text_of rt (CStr c) = strip c"
  by (simp add: text_of_def)

lemma process_row_comment:
  "text_of rt (comment_cell row) \<noteq> [] \<Longrightarrow>
   process_row rt e row =
   comment_branch rt e (text_of rt (cost_type_cell row)) (text_of rt (agreement_cell row))
     (text_of rt (comment_cell row))"
  unfolding process_row_def Let_def
  by (rule if_P)

lemma comment_branch_reason: "snd (snd (comment_branch rt e ct ag c)) = c"
  by (simp add: comment_branch_def split: option.splits prod.splits)

lemma comment_branch_env:
  "all_rate_costs e' = all_rate_costs e \<Longrightarrow>
   comment_branch rt e' ct ag c = comment_branch rt e ct ag c"
  by (simp add: comment_branch_def)

text \<open>
  C9, as stated, fails: the Reason is the comment after \<open>strip()\<close>, not the comment
  verbatim.  The comment \<open>" ok "\<close> gives the Reason \<open>"ok"\<close>.
\<close>

theorem comment_not_verbatim:
  "comment_cell (ex_row ''DGR Fee'' (CStr '' ok '')) = CStr '' ok '' \<and>
   snd (snd (process_row ex_rt ex_env (ex_row ''DGR Fee'' (CStr '' ok '')))) \<noteq> '' ok ''"
  by code_simp

text \<open>
  C9, amended.  For every mismatch row whose Comment is not null and is not empty once
  its surrounding whitespace is stripped, the Reason is the stripped comment (for a text
  comment \<open>c\<close>, \<open>strip c\<close>), and the three outputs of the row depend on nothing but the
  rate-cost tables: lane annotations, shipment rows, accessorial tables and the price and
  multiplier lookups are not consulted.
\<close>

theorem comment_becomes_reason:
  assumes "text_of rt (comment_cell row) \<noteq> []"
  shows "snd (snd (process_row rt e row)) = text_of rt (comment_cell row) \<and>
     (\<forall>c. comment_cell row = CStr c \<longrightarrow> snd (snd (process_row rt e row)) = strip c) \<and>
     (\<forall>e'. all_rate_costs e' = all_rate_costs e \<longrightarrow>
           process_row rt e' row = process_row rt e row)"
proof -
  have r: "snd (snd (process_row rt e row)) = text_of rt (comment_cell row)"
    by (simp only: process_row_comment [OF assms] comment_branch_reason)
  have c: "comment_cell row = CStr c \<longrightarrow> snd (snd (process_row rt e row)) = strip c" for c
    using r by (simp add: text_of_CStr)
  have i: "all_rate_costs e' = all_rate_costs e \<longrightarrow>
           process_row rt e' row = process_row rt e row" for e'
  proof
    assume a: "all_rate_costs e' = all_rate_costs e"
    show "process_row rt e' row = process_row rt e row"
      unfolding process_row_comment [OF assms] by (rule comment_branch_env [OF a])
  qed
  from r c i show ?thesis by blast
qed

theorem comment_becomes_reason_witness:
  "text_of ex_rt (comment_cell (ex_row ''DGR Fee'' (CStr '' ok ''))) \<noteq> [] \<and>
   snd (snd (process_row ex_rt ex_env (ex_row ''DGR Fee'' (CStr '' ok '')))) = ''ok''"
proof -
  have t: "text_of ex_rt (comment_cell (ex_row ''DGR Fee'' (CStr '' ok ''))) = ''ok''"
    by code_simp
  have h: "text_of ex_rt (comment_cell (ex_row ''DGR Fee'' (CStr '' ok ''))) \<noteq> []"
    unfolding t by simp
  from comment_becomes_reason [OF h, of ex_env, THEN conjunct1] t h show ?thesis by simp
qed

subsection \<open>Several rate lanes for one shipment\<close>













subsection \<open>The lookup of Rate By and Applies If for a row with a comment\<close>

lemma find_row_None: "find_row P rows = None \<longleftrightarrow> (\<forall>x\<in>set rows. \<not> P x)"
  by (induction rows) auto

lemma find_row_first: "(\<forall>x\<in>set pre. \<not> P x) \<Longrightarrow> P r \<Longrightarrow> find_row P (pre @ r # post) = Some r"
  by (induction pre) auto

lemma comment_branch_lookup:
  "lookup_agreement (all_rate_costs e) ag = Some ad \<Longrightarrow>
   comment_branch rt e ct ag c =
   (display_text rt (fst (get_cost_conditions_for_cost_type rt ct (cost_conditions ad))),
    display_text rt (snd (get_cost_conditions_for_cost_type rt ct (cost_conditions ad))), c)"
  by (simp add: comment_branch_def split: prod.splits)

lemma substring_fallback:
  assumes "\<not> df_empty df"
      and "find (has2 ''cost'' ''name'') (df_columns df) = Some cn"
      and "df_rows df = pre @ r # post"
      and "\<forall>x\<in>set (df_rows df). lower (strip (py_str rt (row_get x cn (CStr [])))) \<noteq> lower (strip q)"
      and "\<forall>x\<in>set pre. \<not> (sublist (lower (strip q)) (lower (strip (py_str rt (row_get x cn (CStr []))))) \<or>
                           sublist (lower (strip (py_str rt (row_get x cn (CStr []))))) (lower (strip q)))"
      and "sublist (lower (strip q)) (lower (strip (py_str rt (row_get r cn (CStr []))))) \<or>
           sublist (lower (strip (py_str rt (row_get r cn (CStr []))))) (lower (strip q))"
  shows "get_cost_conditions_for_cost_type rt q (Some df) =
         (opt_get r (find (has2 ''rate'' ''by'') (df_columns df)),
          opt_get r (find (has2 ''applies'' ''if'') (df_columns df)))"
proof -
  let ?name = "\<lambda>row. strip (py_str rt (row_get row cn (CStr [])))"
  have n: "find_row (\<lambda>row. lower (?name row) = lower (strip q)) (df_rows df) = None"
    using assms(4) by (simp add: find_row_None)
  have f: "find_row (\<lambda>row. sublist (lower (strip q)) (lower (?name row)) \<or>
                          sublist (lower (?name row)) (lower (strip q))) (df_rows df) = Some r"
    unfolding assms(3) using assms(5,6) by (intro find_row_first) auto
  show ?thesis
    using assms(1,2) n f by (simp add: get_cost_conditions_for_cost_type_def Let_def)
qed

text \<open>
  C10.  For a row with a comment the outputs Rate By and Applies If are the values that
  \<open>get_cost_conditions_for_cost_type\<close> finds in the cost conditions of the agreement.
  When no entry has the name of the query (compared in lower case), that lookup returns
  the first entry whose name contains the query or is contained in it.  The query
  \<open>DGR Fee\<close> so resolves to the entry \<open>Air DGR Fee\<close>, which the main cost matcher does
  not match.
\<close>

theorem comment_rows_use_substring_lookup:
  "(text_of rt (comment_cell row) \<noteq> [] \<and>
    lookup_agreement (all_rate_costs e) (text_of rt (agreement_cell row)) = Some ad \<longrightarrow>
    fst (process_row rt e row) =
      display_text rt (fst (get_cost_conditions_for_cost_type rt (text_of rt (cost_type_cell row))
                              (cost_conditions ad))) \<and>
    fst (snd (process_row rt e row)) =
      display_text rt (snd (get_cost_conditions_for_cost_type rt (text_of rt (cost_type_cell row))
                              (cost_conditions ad)))) \<and>
   (\<not> df_empty df \<and> find (has2 ''cost'' ''name'') (df_columns df) = Some cn \<and>
    df_rows df = pre @ r # post \<and>
    (\<forall>x\<in>set (df_rows df).
       lower (strip (py_str rt (row_get x cn (CStr [])))) \<noteq> lower (strip q)) \<and>
    (\<forall>x\<in>set pre.
       \<not> (sublist (lower (strip q)) (lower (strip (py_str rt (row_get x cn (CStr []))))) \<or>
          sublist (lower (strip (py_str rt (row_get x cn (CStr []))))) (lower (strip q)))) \<and>
    (sublist (lower (strip q)) (lower (strip (py_str rt (row_get r cn (CStr []))))) \<or>
     sublist (lower (strip (py_str rt (row_get r cn (CStr []))))) (lower (strip q))) \<longrightarrow>
    get_cost_conditions_for_cost_type rt q (Some df) =
      (opt_get r (find (has2 ''rate'' ''by'') (df_columns df)),
       opt_get r (find (has2 ''applies'' ''if'') (df_columns df)))) \<and>
   get_cost_conditions_for_cost_type ex_rt ''DGR Fee'' (Some ex_dgr_table) =
     (CStr ''PER SHIPMENT'', CStr ''No condition'') \<and>
   get_all_matching_cost_conditions ex_rt ''DGR Fee'' (Some ex_dgr_table) = [] \<and>
   find_best_matching_cost ex_rt ''DGR Fee'' (Some ex_dgr_table) [] = None"
proof -
  have a: "text_of rt (comment_cell row) \<noteq> [] \<and>
    lookup_agreement (all_rate_costs e) (text_of rt (agreement_cell row)) = Some ad \<longrightarrow>
    fst (process_row rt e row) =
      display_text rt (fst (get_cost_conditions_for_cost_type rt (text_of rt (cost_type_cell row))
                              (cost_conditions ad))) \<and>
    fst (snd (process_row rt e row)) =
      display_text rt (snd (get_cost_conditions_for_cost_type rt (text_of rt (cost_type_cell row))
                              (cost_conditions ad)))"
    by (simp add: process_row_comment comment_branch_lookup)
  have c1: "get_cost_conditions_for_cost_type ex_rt ''DGR Fee'' (Some ex_dgr_table) =
     (CStr ''PER SHIPMENT'', CStr ''No condition'')"
    by code_simp
  have c2: "get_all_matching_cost_conditions ex_rt ''DGR Fee'' (Some ex_dgr_table) = []"
    by code_simp
  have c3: "find_best_matching_cost ex_rt ''DGR Fee'' (Some ex_dgr_table) [] = None"
    by code_simp
  from a substring_fallback [of df cn pre r post rt q] c1 c2 c3 show ?thesis
    by blast
qed

theorem comment_rows_use_substring_lookup_witness:
  "text_of ex_rt (comment_cell (ex_row ''DGR Fee'' (CStr ''checked''))) \<noteq> [] \<and>
   df_rows ex_dgr_table =
     [] @ [(''Cost Name'', CStr ''Air DGR Fee''), (''Rate By'', CStr ''PER SHIPMENT''),
           (''Applies If'', CStr ''No condition'')] # [] \<and>
   sublist (lower (strip ''DGR Fee'')) (lower (strip ''Air DGR Fee'')) \<and>
   lower (strip ''Air DGR Fee'') \<noteq> lower (strip ''DGR Fee'') \<and>
   get_cost_conditions_for_cost_type ex_rt ''DGR Fee'' (Some ex_dgr_table) =
     (CStr ''PER SHIPMENT'', CStr ''No condition'') \<and>
   process_row ex_rt ex_env (ex_row ''DGR Fee'' (CStr ''checked'')) =
     (''PER SHIPMENT'', ''No condition'', ''checked'')"
proof -
  let ?row = "ex_row ''DGR Fee'' (CStr ''checked'')"
  let ?ad = "\<lparr>rate_data = None, cost_conditions = Some ex_dgr_table\<rparr>"
  let ?r = "[(''Cost Name'', CStr ''Air DGR Fee''), (''Rate By'', CStr ''PER SHIPMENT''),
             (''Applies If'', CStr ''No condition'')]"
  have h1: "text_of ex_rt (comment_cell ?row) \<noteq> []" by code_simp
  have ag: "text_of ex_rt (agreement_cell ?row) = ''RA1''" by code_simp
  have ct: "text_of ex_rt (cost_type_cell ?row) = ''DGR Fee''" by code_simp
  have h2: "lookup_agreement (all_rate_costs ex_env) (text_of ex_rt (agreement_cell ?row)) = Some ?ad"
    unfolding ag by code_simp
  have d1: "\<not> df_empty ex_dgr_table" by code_simp
  have d2: "find (has2 ''cost'' ''name'') (df_columns ex_dgr_table) = Some ''Cost Name''"
    by code_simp
  have d3: "df_rows ex_dgr_table = [] @ ?r # []" by code_simp
  have nm: "strip (py_str ex_rt (row_get ?r ''Cost Name'' (CStr []))) = ''Air DGR Fee''"
    by code_simp
  have s1: "sublist (lower (strip ''DGR Fee'')) (lower (strip ''Air DGR Fee''))" by code_simp
  have s2: "lower (strip ''Air DGR Fee'') \<noteq> lower (strip ''DGR Fee'')" by code_simp
  have s3: "lower ''Air DGR Fee'' \<noteq> lower (strip ''DGR Fee'')" by code_simp
  have s4: "sublist (lower (strip ''DGR Fee'')) (lower ''Air DGR Fee'')" by code_simp
  have d4: "\<forall>x\<in>set (df_rows ex_dgr_table).
       lower (strip (py_str ex_rt (row_get x ''Cost Name'' (CStr [])))) \<noteq> lower (strip ''DGR Fee'')"
    unfolding d3 using nm s3 by simp
  have d5: "\<forall>x\<in>set [].
       \<not> (sublist (lower (strip ''DGR Fee'')) (lower (strip (py_str ex_rt (row_get x ''Cost Name'' (CStr []))))) \<or>
          sublist (lower (strip (py_str ex_rt (row_get x ''Cost Name'' (CStr []))))) (lower (strip ''DGR Fee'')))"
    by simp
  have d6: "sublist (lower (strip ''DGR Fee'')) (lower (strip (py_str ex_rt (row_get ?r ''Cost Name'' (CStr []))))) \<or>
     sublist (lower (strip (py_str ex_rt (row_get ?r ''Cost Name'' (CStr []))))) (lower (strip ''DGR Fee''))"
    unfolding nm using s4 by simp
  have o1: "opt_get ?r (find (has2 ''rate'' ''by'') (df_columns ex_dgr_table)) = CStr ''PER SHIPMENT''"
    by code_simp
  have o2: "opt_get ?r (find (has2 ''applies'' ''if'') (df_columns ex_dgr_table)) = CStr ''No condition''"
    by code_simp
  have dt1: "display_text ex_rt (CStr ''PER SHIPMENT'') = ''PER SHIPMENT''" by code_simp
  have dt2: "display_text ex_rt (CStr ''No condition'') = ''No condition''" by code_simp
  note T = comment_rows_use_substring_lookup
             [of ex_rt ?row ex_env ?ad ex_dgr_table "''Cost Name''" "[]" ?r "[]" "''DGR Fee''"]
  have g: "get_cost_conditions_for_cost_type ex_rt ''DGR Fee'' (Some ex_dgr_table) =
           (CStr ''PER SHIPMENT'', CStr ''No condition'')"
    using T [THEN conjunct2, THEN conjunct1] d1 d2 d3 d4 d5 d6 o1 o2 by simp
  have p: "fst (process_row ex_rt ex_env ?row) = ''PER SHIPMENT'' \<and>
           fst (snd (process_row ex_rt ex_env ?row)) = ''No condition''"
    using T [THEN conjunct1] h1 h2 by (simp add: ct g dt1 dt2)
  have r: "snd (snd (process_row ex_rt ex_env ?row)) = ''checked''" by code_simp
  have "process_row ex_rt ex_env ?row = (''PER SHIPMENT'', ''No condition'', ''checked'')"
    using p r by (metis prod.collapse)
  with h1 d3 s1 s2 g show ?thesis by blast
qed

subsection \<open>A condition on a column the shipment row does not have\<close>









subsection \<open>Selection of the weight tier\<close>

lemma scan_tiers_None:
  "scan_tiers rt (Fin w) ts = None \<longleftrightarrow> (\<forall>t\<in>set ts. \<not> in_tier w t)"
  by (induction rt "Fin w" ts rule: scan_tiers.induct) (auto simp add: in_tier_def)

lemma scan_tiers_Some:
  "scan_tiers rt (Fin w) ts = Some (i, d) \<Longrightarrow>
   \<exists>pre t post. ts = pre @ t # post \<and> fst t = i \<and> in_tier w t \<and> d = tier_desc rt t \<and>
                 (\<forall>u\<in>set pre. \<not> in_tier w u)"
proof (induction rt "Fin w" ts rule: scan_tiers.induct)
  case (1 rt)
  then show ?case by simp
next
  case (2 rt col_idx upper tiers)
  show ?case
  proof (cases "w \<le> upper")
    case True
    with 2(2) have "i = col_idx" "d = ''<='' @ bound_str rt upper" by auto
    then have "(col_idx, None, upper) # tiers = [] @ (col_idx, None, upper) # tiers \<and>
          fst (col_idx, None :: real option, upper) = i \<and> in_tier w (col_idx, None, upper) \<and>
          d = tier_desc rt (col_idx, None, upper) \<and> (\<forall>u\<in>set []. \<not> in_tier w u)"
      using True by (simp add: in_tier_def tier_desc_def)
    then show ?thesis by blast
  next
    case False
    with 2(2) have "scan_tiers rt (Fin w) tiers = Some (i, d)" by simp
    from 2(1) [OF _ this] False obtain pre t post where
      p: "tiers = pre @ t # post" "fst t = i" "in_tier w t" "d = tier_desc rt t"
         "\<forall>u\<in>set pre. \<not> in_tier w u"
      by auto
    have "(col_idx, None, upper) # tiers = ((col_idx, None, upper) # pre) @ t # post \<and>
          fst t = i \<and> in_tier w t \<and> d = tier_desc rt t \<and>
          (\<forall>u\<in>set ((col_idx, None, upper) # pre). \<not> in_tier w u)"
      using p False by (simp add: in_tier_def)
    then show ?thesis by blast
  qed
next
  case (3 rt col_idx lo upper tiers)
  show ?case
  proof (cases "lo < w \<and> w \<le> upper")
    case True
    with 3(2) have "i = col_idx" "d = ''>'' @ bound_str rt lo @ '' <='' @ bound_str rt upper" by auto
    then have "(col_idx, Some lo, upper) # tiers = [] @ (col_idx, Some lo, upper) # tiers \<and>
          fst (col_idx, Some lo, upper) = i \<and> in_tier w (col_idx, Some lo, upper) \<and>
          d = tier_desc rt (col_idx, Some lo, upper) \<and> (\<forall>u\<in>set []. \<not> in_tier w u)"
      using True by (simp add: in_tier_def tier_desc_def)
    then show ?thesis by blast
  next
    case False
    with 3(2) have "scan_tiers rt (Fin w) tiers = Some (i, d)" by auto
    from 3(1) [OF _ this] False obtain pre t post where
      p: "tiers = pre @ t # post" "fst t = i" "in_tier w t" "d = tier_desc rt t"
         "\<forall>u\<in>set pre. \<not> in_tier w u"
      by auto
    have "(col_idx, Some lo, upper) # tiers = ((col_idx, Some lo, upper) # pre) @ t # post \<and>
          fst t = i \<and> in_tier w t \<and> d = tier_desc rt t \<and>
          (\<forall>u\<in>set ((col_idx, Some lo, upper) # pre). \<not> in_tier w u)"
      using p False by (simp add: in_tier_def)
    then show ?thesis by blast
  qed
qed

lemma sorted_last_max:
  "xs \<noteq> [] \<Longrightarrow> sorted (map f xs) \<Longrightarrow> x \<in> set xs \<Longrightarrow> (f x :: real) \<le> f (last xs)"
proof (induction xs)
  case Nil
  then show ?case by simp
next
  case (Cons a xs)
  show ?case
  proof (cases "xs = []")
    case True
    with Cons show ?thesis by simp
  next
    case False
    with Cons show ?thesis by auto
  qed
qed


lemma select_unfold:
  assumes "tiers \<noteq> []" "charge_weight \<noteq> CNone" "py_float rt charge_weight = Some (Fin w)"
  shows "select_price_column_by_weight rt tiers charge_weight =
         (case scan_tiers rt (Fin w) (sort_key (\<lambda>t. snd (snd t)) tiers) of
            Some (i, d) \<Rightarrow> (Some i, Some d)
          | None \<Rightarrow>
              if snd (snd (last (sort_key (\<lambda>t. snd (snd t)) tiers))) < w
              then (None, Some (''exceeds max tier '' @
                      repr_float rt (snd (snd (last (sort_key (\<lambda>t. snd (snd t)) tiers))))))
              else (None, None))"
  using assms by (simp add: select_price_column_by_weight_def Let_def split: option.splits)

lemma last_sorted_tiers:
  assumes "tiers \<noteq> ([] :: tier list)"
  shows "snd (snd (last (sort_key (\<lambda>t. snd (snd t)) tiers))) = Max ((\<lambda>t. snd (snd t)) ` set tiers)"
proof -
  let ?f = "\<lambda>t :: tier. snd (snd t)"
  let ?S = "sort_key ?f tiers"
  have ne: "?S \<noteq> []" using assms by (metis set_sort set_empty)
  have mem: "last ?S \<in> set tiers" using ne by (metis last_in_set set_sort)
  have ub: "?f x \<le> ?f (last ?S)" if "x \<in> set tiers" for x
    using sorted_last_max [OF ne sorted_sort_key, of x] that by simp
  show ?thesis
    by (rule Max_eqI [symmetric]) (use mem ub in auto)
qed

text \<open>
  C2.  For a non-empty list of tiers and a numeric charge weight \<open>w\<close>: a column is
  selected only for a tier with \<open>lower < w <= upper\<close> (\<open>w <= upper\<close> without lower
  bound), with the description of that tier, and it is the tier of least upper bound
  among those that hold \<open>w\<close>; whenever some tier holds \<open>w\<close>, a column is selected; and
  when \<open>w\<close> exceeds the upper bound of every tier, no column is selected and the
  description is \<open>exceeds max tier\<close> followed by the largest upper bound.
\<close>

theorem weight_tier_selection:
  assumes "tiers \<noteq> []" and "charge_weight \<noteq> CNone"
      and "py_float rt charge_weight = Some (Fin w)"
  shows "(\<forall>i d. select_price_column_by_weight rt tiers charge_weight = (Some i, Some d) \<longrightarrow>
            (\<exists>t\<in>set tiers. fst t = i \<and> in_tier w t \<and> d = tier_desc rt t \<and>
               (\<forall>u\<in>set tiers. in_tier w u \<longrightarrow> snd (snd t) \<le> snd (snd u)))) \<and>
         ((\<exists>t\<in>set tiers. in_tier w t) \<longrightarrow>
            (\<exists>i d. select_price_column_by_weight rt tiers charge_weight = (Some i, Some d))) \<and>
         ((\<forall>t\<in>set tiers. snd (snd t) < w) \<longrightarrow>
            select_price_column_by_weight rt tiers charge_weight =
            (None, Some (''exceeds max tier '' @
                         repr_float rt (Max ((\<lambda>t. snd (snd t)) ` set tiers)))))"
proof -
  let ?f = "\<lambda>t :: tier. snd (snd t)"
  let ?S = "sort_key ?f tiers"
  note U = select_unfold [OF assms]
  have set_S: "set ?S = set tiers" by simp
  have 1: "\<exists>t\<in>set tiers. fst t = i \<and> in_tier w t \<and> d = tier_desc rt t \<and>
               (\<forall>u\<in>set tiers. in_tier w u \<longrightarrow> snd (snd t) \<le> snd (snd u))"
    if sel: "select_price_column_by_weight rt tiers charge_weight = (Some i, Some d)" for i d
  proof -
    have "scan_tiers rt (Fin w) ?S = Some (i, d)"
      using sel unfolding U by (auto split: option.splits if_splits)
    from scan_tiers_Some [OF this] obtain pre t post where
      p: "?S = pre @ t # post" "fst t = i" "in_tier w t" "d = tier_desc rt t"
         "\<forall>u\<in>set pre. \<not> in_tier w u"
      by blast
    have t_in: "t \<in> set tiers" using p(1) set_S by (metis in_set_conv_decomp)
    have srt: "sorted (map ?f (pre @ t # post))" using sorted_sort_key [of ?f tiers] p(1) by simp
    have le: "?f t \<le> ?f u" if "u \<in> set tiers" "in_tier w u" for u
    proof -
      have "u \<in> set pre \<or> u = t \<or> u \<in> set post" using that(1) set_S p(1) by (metis Un_iff set_ConsD set_append)
      with that(2) p(5) have "u = t \<or> u \<in> set post" by blast
      then show ?thesis using srt by (auto simp add: sorted_append)
    qed
    show ?thesis using t_in p(2,3,4) le by blast
  qed
  have 2: "\<exists>i d. select_price_column_by_weight rt tiers charge_weight = (Some i, Some d)"
    if "\<exists>t\<in>set tiers. in_tier w t"
  proof -
    have "scan_tiers rt (Fin w) ?S \<noteq> None"
      using that unfolding scan_tiers_None set_S by blast
    then obtain i d where "scan_tiers rt (Fin w) ?S = Some (i, d)" by (cases "scan_tiers rt (Fin w) ?S") auto
    then show ?thesis unfolding U by simp
  qed
  have 3: "select_price_column_by_weight rt tiers charge_weight =
            (None, Some (''exceeds max tier '' @
                         repr_float rt (Max ((\<lambda>t. snd (snd t)) ` set tiers))))"
    if all: "\<forall>t\<in>set tiers. snd (snd t) < w"
  proof -
    have "\<forall>t\<in>set tiers. \<not> in_tier w t"
      using all by (auto simp add: in_tier_def split: option.splits)
    then have n: "scan_tiers rt (Fin w) ?S = None"
      unfolding scan_tiers_None set_S .
    have "last ?S \<in> set tiers" using assms(1) by (metis last_in_set set_sort set_empty)
    with all have lt: "snd (snd (last ?S)) < w" by blast
    show ?thesis unfolding U n using lt by (simp add: last_sorted_tiers [OF assms(1)])
  qed
  from 1 2 3 show ?thesis by blast
qed


theorem weight_tier_selection_witness:
  "ex_tiers \<noteq> [] \<and> CFloat (100001 / 100) \<noteq> CNone \<and>
   py_float ex_rt (CFloat (100001 / 100)) = Some (Fin (100001 / 100)) \<and>
   list_all (\<lambda>t. snd (snd t) < 100001 / 100) ex_tiers \<and>
   select_price_column_by_weight ex_rt ex_tiers (CFloat (100001 / 100)) =
     (None, Some ''exceeds max tier 1000.0'') \<and>
   select_price_column_by_weight ex_rt ex_tiers (CInt 200) = (Some 2, Some ''<=200'') \<and>
   select_price_column_by_weight ex_rt ex_tiers (CFloat (20001 / 100)) =
     (Some 3, Some ''>200 <=500'')"
proof -
  have h1: "ex_tiers \<noteq> []" by (simp add: ex_tiers_def)
  have h2: "CFloat (100001 / 100) \<noteq> CNone" by simp
  have h3: "py_float ex_rt (CFloat (100001 / 100)) = Some (Fin (100001 / 100))" by simp
  have h4: "\<forall>t\<in>set ex_tiers. snd (snd t) < 100001 / 100" by (simp add: ex_tiers_def)
  have m: "Max ((\<lambda>t. snd (snd t)) ` set ex_tiers) = (1000 :: real)" by (simp add: ex_tiers_def)
  have r: "repr_float ex_rt 1000 = ''1000.0''" by code_simp
  have a: "select_price_column_by_weight ex_rt ex_tiers (CFloat (100001 / 100)) =
     (None, Some ''exceeds max tier 1000.0'')"
    using weight_tier_selection [OF h1 h2 h3, THEN conjunct2, THEN conjunct2] h4
    unfolding m r by simp
  have b: "select_price_column_by_weight ex_rt ex_tiers (CInt 200) = (Some 2, Some ''<=200'')"
    by code_simp
  have c: "select_price_column_by_weight ex_rt ex_tiers (CFloat (20001 / 100)) =
     (Some 3, Some ''>200 <=500'')"
    by code_simp
  have h4': "list_all (\<lambda>t. snd (snd t) < 100001 / 100) ex_tiers"
    using h4 by (simp add: list_all_iff)
  from h1 h2 h3 h4' a b c show ?thesis by blast
qed

subsection \<open>Matching of cost names\<close>








subsection \<open>Disambiguation among several matching costs\<close>

lemma classify_filter:
  "classify rt row f ms =
   (filter (\<lambda>m. parse_applies_if_condition rt (f m) \<noteq> [] \<and> row \<noteq> [] \<and>
                 fst (check_applies_if_condition rt (parse_applies_if_condition rt (f m)) ''check'' row)) ms,
    filter (\<lambda>m. parse_applies_if_condition rt (f m) = [] \<or> row = []) ms)"
  by (induction ms) (auto simp add: Let_def)

lemma first_max_in: "first_max key b xs \<in> set (b # xs)"
  by (induction xs arbitrary: b) auto

lemma first_max_ge: "x \<in> set (b # xs) \<Longrightarrow> key x \<le> key (first_max key b xs)"
proof (induction xs arbitrary: b x)
  case Nil
  then show ?case by simp
next
  case (Cons a xs)
  have mono: "key c \<le> key (first_max key c xs)" for c
    using Cons.IH [where x = c and b = c] by simp
  show ?case
  proof (cases "key b < key a")
    case True
    have "x = b \<or> x \<in> set (a # xs)" using Cons.prems by auto
    then show ?thesis
    proof
      assume "x = b"
      then have "key x \<le> key a" using True by simp
      also have "\<dots> \<le> key (first_max key a xs)" by (rule mono)
      finally show ?thesis using True by simp
    next
      assume "x \<in> set (a # xs)"
      then show ?thesis using True Cons.IH [where x = x and b = a] by simp
    qed
  next
    case False
    have "x = a \<or> x \<in> set (b # xs)" using Cons.prems by auto
    then show ?thesis
    proof
      assume "x = a"
      then have "key x \<le> key b" using False by simp
      also have "\<dots> \<le> key (first_max key b xs)" by (rule mono)
      finally show ?thesis using False by simp
    next
      assume "x \<in> set (b # xs)"
      then show ?thesis using False Cons.IH [where x = x and b = b] by simp
    qed
  qed
qed

lemma first_min_in: "first_min key b xs \<in> set (b # xs)"
  by (induction xs arbitrary: b) auto

lemma first_min_le: "x \<in> set (b # xs) \<Longrightarrow> key (first_min key b xs) \<le> key x"
proof (induction xs arbitrary: b x)
  case Nil
  then show ?case by simp
next
  case (Cons a xs)
  have mono: "key (first_min key c xs) \<le> key c" for c
    using Cons.IH [where x = c and b = c] by simp
  show ?case
  proof (cases "key a < key b")
    case True
    have "x = b \<or> x \<in> set (a # xs)" using Cons.prems by auto
    then show ?thesis
    proof
      assume "x = b"
      have "key (first_min key a xs) \<le> key a" by (rule mono)
      also have "\<dots> \<le> key x" using True \<open>x = b\<close> by simp
      finally show ?thesis using True by simp
    next
      assume "x \<in> set (a # xs)"
      then show ?thesis using True Cons.IH [where x = x and b = a] by simp
    qed
  next
    case False
    have "x = a \<or> x \<in> set (b # xs)" using Cons.prems by auto
    then show ?thesis
    proof
      assume "x = a"
      have "key (first_min key b xs) \<le> key b" by (rule mono)
      also have "\<dots> \<le> key x" using False \<open>x = a\<close> by simp
      finally show ?thesis using False by simp
    next
      assume "x \<in> set (b # xs)"
      then show ?thesis using False Cons.IH [where x = x and b = b] by simp
    qed
  qed
qed


lemma pick_met:
  assumes "filter P xs \<noteq> []"
  shows "\<exists>best. pick (filter P xs) ws d = Some best \<and> best \<in> set xs \<and> P best \<and>
                (\<forall>x\<in>set xs. P x \<longrightarrow> length (fst x) \<le> length (fst best))"
proof -
  obtain m met where e: "filter P xs = m # met" using assms by (cases "filter P xs") auto
  have res: "pick (filter P xs) ws d = Some (first_max name_len m met)"
    unfolding e pick_def by simp
  have "first_max name_len m met \<in> set (filter P xs)" unfolding e by (rule first_max_in)
  then have mem: "first_max name_len m met \<in> set xs" and sat: "P (first_max name_len m met)"
    by simp_all
  have "length (fst x) \<le> length (fst (first_max name_len m met))" if "x \<in> set xs" "P x" for x
  proof -
    have "x \<in> set (filter P xs)" using that by simp
    then have "x \<in> set (m # met)" unfolding e .
    from first_max_ge [OF this, of name_len] show ?thesis by (simp add: name_len_def)
  qed
  with res mem sat show ?thesis by blast
qed

lemma pick_without:
  assumes "filter P xs = []" and "filter Q xs \<noteq> []"
  shows "\<exists>best. pick (filter P xs) (filter Q xs) d = Some best \<and> best \<in> set xs \<and> Q best \<and>
                (\<forall>x\<in>set xs. Q x \<longrightarrow> length (fst best) \<le> length (fst x))"
proof -
  obtain w without where e: "filter Q xs = w # without" using assms(2) by (cases "filter Q xs") auto
  have res: "pick (filter P xs) (filter Q xs) d = Some (first_min name_len w without)"
    unfolding assms(1) e pick_def by simp
  have "first_min name_len w without \<in> set (filter Q xs)" unfolding e by (rule first_min_in)
  then have mem: "first_min name_len w without \<in> set xs" and sat: "Q (first_min name_len w without)"
    by simp_all
  have "length (fst (first_min name_len w without)) \<le> length (fst x)" if "x \<in> set xs" "Q x" for x
  proof -
    have "x \<in> set (filter Q xs)" using that by simp
    then have "x \<in> set (w # without)" unfolding e .
    from first_min_le [OF this, of name_len] show ?thesis by (simp add: name_len_def)
  qed
  with res mem sat show ?thesis by blast
qed

lemma pick_first: "pick [] [] d = Some d"
  by (simp add: pick_def)

lemma find_best_unfold:
  assumes "get_all_matching_cost_conditions rt query df = a # b # rest"
  shows "find_best_matching_cost rt query df row =
         pick (filter (\<lambda>m. satisfied_by rt row m \<and> row \<noteq> []) (a # b # rest))
              (filter (\<lambda>m. parsed_of rt m = [] \<or> row = []) (a # b # rest)) a"
proof -
  have c: "classify rt row (\<lambda>m. snd (snd m)) (a # b # rest) =
           (filter (\<lambda>m. satisfied_by rt row m \<and> row \<noteq> []) (a # b # rest),
            filter (\<lambda>m. parsed_of rt m = [] \<or> row = []) (a # b # rest))"
    unfolding classify_filter satisfied_by_def parsed_of_def
    by (simp add: conj_ac)
  show ?thesis
    unfolding find_best_matching_cost_def assms list.case c pick_def ..
qed

text \<open>
  C4, as stated, fails when the shipment row is empty (the ETOF number has no row in the
  shipment data): the matcher then puts every candidate, with or without a parseable
  condition, among the candidates without conditions.  Here the candidate without
  condition is \<open>Delivery Fee (Standard)\<close>, and the matcher returns the shorter
  \<open>Delivery Fee\<close>, whose condition parses and is not satisfied.
\<close>

theorem shortest_name_wins_without_shipment_row:
  "get_all_matching_cost_conditions ex_rt ''Delivery Fee'' (Some ex_delivery_table) =
     [(''Delivery Fee (Standard)'', CStr ''PER SHIPMENT'', CStr ''No condition''),
      (''Delivery Fee'', CStr ''PER SHIPMENT'',
       CStr (''1. City equals '' @ [CHR 0x27] @ ''Getafe'' @ [CHR 0x27]))] \<and>
   parsed_of ex_rt (''Delivery Fee (Standard)'', CStr ''PER SHIPMENT'', CStr ''No condition'') = [] \<and>
   parsed_of ex_rt (''Delivery Fee'', CStr ''PER SHIPMENT'',
       CStr (''1. City equals '' @ [CHR 0x27] @ ''Getafe'' @ [CHR 0x27])) =
     [(''City'', Equals, [''Getafe''])] \<and>
   \<not> satisfied_by ex_rt [] (''Delivery Fee'', CStr ''PER SHIPMENT'',
       CStr (''1. City equals '' @ [CHR 0x27] @ ''Getafe'' @ [CHR 0x27])) \<and>
   find_best_matching_cost ex_rt ''Delivery Fee'' (Some ex_delivery_table) [] =
   Some (''Delivery Fee'', CStr ''PER SHIPMENT'',
         CStr (''1. City equals '' @ [CHR 0x27] @ ''Getafe'' @ [CHR 0x27]))"
  by code_simp

text \<open>
  C4, amended.  When the matcher finds two candidates or more and the shipment row is
  not empty: if some candidate has a parsed condition that the row satisfies, the result
  is such a candidate with a name at least as long as that of every other; otherwise, if
  some candidate has no parseable condition, the result is such a candidate with a name
  at most as long as that of every other; otherwise the result is the first candidate.
  When the shipment row is empty, the result is a candidate with a name at most as long
  as that of every candidate.
\<close>

theorem disambiguation:
  assumes "get_all_matching_cost_conditions rt query df = a # b # rest"
  shows
   "(row \<noteq> [] \<and> (\<exists>m\<in>set (a # b # rest). satisfied_by rt row m) \<longrightarrow>
       (\<exists>best. find_best_matching_cost rt query df row = Some best \<and>
               best \<in> set (a # b # rest) \<and> satisfied_by rt row best \<and>
               (\<forall>m\<in>set (a # b # rest). satisfied_by rt row m \<longrightarrow>
                  length (fst m) \<le> length (fst best)))) \<and>
    (row \<noteq> [] \<and> \<not> (\<exists>m\<in>set (a # b # rest). satisfied_by rt row m) \<and>
     (\<exists>m\<in>set (a # b # rest). parsed_of rt m = []) \<longrightarrow>
       (\<exists>best. find_best_matching_cost rt query df row = Some best \<and>
               best \<in> set (a # b # rest) \<and> parsed_of rt best = [] \<and>
               (\<forall>m\<in>set (a # b # rest). parsed_of rt m = [] \<longrightarrow>
                  length (fst best) \<le> length (fst m)))) \<and>
    (row \<noteq> [] \<and> \<not> (\<exists>m\<in>set (a # b # rest). satisfied_by rt row m) \<and>
     \<not> (\<exists>m\<in>set (a # b # rest). parsed_of rt m = []) \<longrightarrow>
       find_best_matching_cost rt query df row = Some a) \<and>
    (row = [] \<longrightarrow>
       (\<exists>best. find_best_matching_cost rt query df row = Some best \<and>
               best \<in> set (a # b # rest) \<and>
               (\<forall>m\<in>set (a # b # rest). length (fst best) \<le> length (fst m))))"
proof -
  define xs where "xs = a # b # rest"
  define P where "P = (\<lambda>m. satisfied_by rt row m \<and> row \<noteq> [])"
  define Q where "Q = (\<lambda>m. parsed_of rt m = [] \<or> row = [])"
  have U: "find_best_matching_cost rt query df row = pick (filter P xs) (filter Q xs) a"
    unfolding xs_def P_def Q_def by (rule find_best_unfold [OF assms])
  have ne: "xs \<noteq> []" by (simp add: xs_def)
  have 1: "\<exists>best. find_best_matching_cost rt query df row = Some best \<and>
               best \<in> set xs \<and> satisfied_by rt row best \<and>
               (\<forall>m\<in>set xs. satisfied_by rt row m \<longrightarrow> length (fst m) \<le> length (fst best))"
    if r: "row \<noteq> []" and ex: "\<exists>m\<in>set xs. satisfied_by rt row m"
  proof -
    have "filter P xs \<noteq> []" using r ex unfolding filter_empty_conv P_def by blast
    from pick_met [OF this, of "filter Q xs" a] show ?thesis
      unfolding U P_def using r by blast
  qed
  have 2: "\<exists>best. find_best_matching_cost rt query df row = Some best \<and>
               best \<in> set xs \<and> parsed_of rt best = [] \<and>
               (\<forall>m\<in>set xs. parsed_of rt m = [] \<longrightarrow> length (fst best) \<le> length (fst m))"
    if r: "row \<noteq> []" and nex: "\<not> (\<exists>m\<in>set xs. satisfied_by rt row m)"
      and ex: "\<exists>m\<in>set xs. parsed_of rt m = []"
  proof -
    have m0: "filter P xs = []" using nex unfolding filter_empty_conv P_def by blast
    have "filter Q xs \<noteq> []" using ex unfolding filter_empty_conv Q_def by blast
    from pick_without [OF m0 this, of a] show ?thesis
      unfolding U Q_def using r by blast
  qed
  have 3: "find_best_matching_cost rt query df row = Some a"
    if r: "row \<noteq> []" and nex: "\<not> (\<exists>m\<in>set xs. satisfied_by rt row m)"
      and nex2: "\<not> (\<exists>m\<in>set xs. parsed_of rt m = [])"
  proof -
    have m0: "filter P xs = []" using nex unfolding filter_empty_conv P_def by blast
    have w0: "filter Q xs = []" using nex2 r unfolding filter_empty_conv Q_def by blast
    show ?thesis unfolding U m0 w0 by (rule pick_first)
  qed
  have 4: "\<exists>best. find_best_matching_cost rt query df row = Some best \<and>
               best \<in> set xs \<and> (\<forall>m\<in>set xs. length (fst best) \<le> length (fst m))"
    if r: "row = []"
  proof -
    have m0: "filter P xs = []" using r unfolding filter_empty_conv P_def by blast
    have "filter Q xs = xs" using r unfolding Q_def by simp
    then have "filter Q xs \<noteq> []" using ne by simp
    from pick_without [OF m0 this, of a] show ?thesis
      unfolding U Q_def using r by blast
  qed
  from 1 2 3 4 show ?thesis unfolding xs_def by blast
qed


theorem disambiguation_witness:
  "get_all_matching_cost_conditions ex_rt ''Delivery Fee'' (Some ex_delivery_table) =
     [(''Delivery Fee (Standard)'', CStr ''PER SHIPMENT'', CStr ''No condition''),
      (''Delivery Fee'', CStr ''PER SHIPMENT'',
       CStr (''1. City equals '' @ [CHR 0x27] @ ''Getafe'' @ [CHR 0x27]))] \<and>
   [(''City'', CStr ''Getafe'')] \<noteq> [] \<and>
   satisfied_by ex_rt [(''City'', CStr ''Getafe'')]
     (''Delivery Fee'', CStr ''PER SHIPMENT'',
      CStr (''1. City equals '' @ [CHR 0x27] @ ''Getafe'' @ [CHR 0x27])) \<and>
   find_best_matching_cost ex_rt ''Delivery Fee'' (Some ex_delivery_table)
     [(''City'', CStr ''Getafe'')] =
   Some (''Delivery Fee'', CStr ''PER SHIPMENT'',
         CStr (''1. City equals '' @ [CHR 0x27] @ ''Getafe'' @ [CHR 0x27])) \<and>
   find_best_matching_cost ex_rt ''Delivery Fee'' (Some ex_delivery_table)
     [(''City'', CStr ''Madrid'')] =
   Some (''Delivery Fee (Standard)'', CStr ''PER SHIPMENT'', CStr ''No condition'')"
proof -
  let ?A = "(''Delivery Fee (Standard)'', CStr ''PER SHIPMENT'', CStr ''No condition'')"
  let ?B = "(''Delivery Fee'', CStr ''PER SHIPMENT'',
             CStr (''1. City equals '' @ [CHR 0x27] @ ''Getafe'' @ [CHR 0x27]))"
  let ?row = "[(''City'', CStr ''Getafe'')]"
  have h: "get_all_matching_cost_conditions ex_rt ''Delivery Fee'' (Some ex_delivery_table) =
           ?A # ?B # []"
    by code_simp
  have r: "?row \<noteq> []" by simp
  have sB: "satisfied_by ex_rt ?row ?B" by code_simp
  have sA: "\<not> satisfied_by ex_rt ?row ?A" by code_simp
  have ex: "\<exists>m\<in>set (?A # ?B # []). satisfied_by ex_rt ?row m" using sB by simp
  from disambiguation [OF h, of ?row, THEN conjunct1] r ex
  obtain best where b: "find_best_matching_cost ex_rt ''Delivery Fee'' (Some ex_delivery_table) ?row = Some best"
      "best \<in> set (?A # ?B # [])" "satisfied_by ex_rt ?row best"
    by blast
  have "best = ?B" using b(2,3) sA by auto
  with b(1) have g: "find_best_matching_cost ex_rt ''Delivery Fee'' (Some ex_delivery_table) ?row = Some ?B"
    by simp
  have m: "find_best_matching_cost ex_rt ''Delivery Fee'' (Some ex_delivery_table)
     [(''City'', CStr ''Madrid'')] = Some ?A"
    by code_simp
  from h r sB g m show ?thesis by simp
qed

subsection \<open>Facts about the matcher of regular expressions\<close>

lemma star_rests_suffix: "r \<in> set (star_rests p s) \<Longrightarrow> suffix r s"
  by (induction s) (auto simp add: suffix_Cons split: if_splits)

lemma plus_rests_suffix: "r \<in> set (plus_rests p s) \<Longrightarrow> suffix r s"
  by (cases s) (auto simp add: suffix_Cons dest: star_rests_suffix split: if_splits)

lemma lazy_plus_rests_suffix: "r \<in> set (lazy_plus_rests p s) \<Longrightarrow> suffix r s"
  by (induction s) (auto simp add: suffix_Cons split: if_splits)

lemma rx_Cat_mem:
  "(g, r) \<in> set (rx ic (Cat a b) s) \<longleftrightarrow>
   (\<exists>g1 s1 g2. (g1, s1) \<in> set (rx ic a s) \<and> (g2, r) \<in> set (rx ic b s1) \<and> g = g1 @ g2)"
  by (auto simp add: image_iff) force+

lemma rx_suffix: "(g, r) \<in> set (rx ic p s) \<Longrightarrow> suffix r s"
proof (induction p arbitrary: g r s)
  case (Cls k)
  then show ?case by (cases s) (auto simp add: suffix_Cons split: if_splits)
next
  case (Lit l)
  then show ?case by (auto simp add: suffix_drop split: if_splits)
next
  case (Cat a b)
  from Cat.prems obtain g1 s1 g2 where
    "(g1, s1) \<in> set (rx ic a s)" "(g2, r) \<in> set (rx ic b s1)"
    unfolding rx_Cat_mem by blast
  then show ?case using Cat.IH by (meson suffix_order.order_trans)
next
  case (Star k)
  then show ?case by (auto dest: star_rests_suffix)
next
  case (Plus k)
  then show ?case by (auto dest: plus_rests_suffix)
next
  case (LazyPlus k)
  then show ?case by (auto dest: lazy_plus_rests_suffix)
next
  case (Opt a)
  then show ?case by auto
next
  case (Group a)
  then show ?case by auto
next
  case Eos
  then show ?case by (auto split: if_splits)
qed

lemma lit_ok_lower: "lit_ok True l s \<Longrightarrow> lower (take (length l) s) = lower l"
  by (induction True l s rule: lit_ok.induct) (auto simp add: lower_def)

lemma sublist_lower: "sublist a b \<Longrightarrow> sublist (lower a) (lower b)"
  unfolding lower_def by (rule map_mono_sublist)

lemma rx_mentions:
  "mentions kw p \<Longrightarrow> (g, r) \<in> set (rx True p s) \<Longrightarrow> sublist kw (lower s)"
proof (induction p arbitrary: g r s)
  case (Lit l)
  then have ok: "lit_ok True l s" by (auto split: if_splits)
  have "sublist kw (lower (take (length l) s))"
    using Lit.prems(1) lit_ok_lower [OF ok] by simp
  moreover have "sublist (lower (take (length l) s)) (lower s)"
    by (rule sublist_lower) simp
  ultimately show ?case by (rule sublist_order.order_trans)
next
  case (Cat a b)
  from Cat.prems(2) obtain g1 s1 g2 where
    m: "(g1, s1) \<in> set (rx True a s)" "(g2, r) \<in> set (rx True b s1)"
    unfolding rx_Cat_mem by blast
  from Cat.prems(1) have "mentions kw a \<or> mentions kw b" by simp
  then show ?case
  proof
    assume "mentions kw a"
    from Cat.IH(1) [OF this m(1)] show ?thesis .
  next
    assume "mentions kw b"
    from Cat.IH(2) [OF this m(2)] have "sublist kw (lower s1)" .
    moreover have "sublist (lower s1) (lower s)"
      using rx_suffix [OF m(1)] by (intro sublist_lower) auto
    ultimately show ?thesis by (rule sublist_order.order_trans)
  qed
next
  case (Group a)
  then show ?case by auto
qed simp_all

lemma rx_ends_at_eos:
  "ends_at_eos p \<Longrightarrow> (g, r) \<in> set (rx ic p s) \<Longrightarrow> r = [] \<or> r = [CHR 0x0A]"
proof (induction p arbitrary: g r s)
  case (Cat a b)
  from Cat.prems(2) obtain g1 s1 g2 where
    m: "(g1, s1) \<in> set (rx ic a s)" "(g2, r) \<in> set (rx ic b s1)"
    unfolding rx_Cat_mem by blast
  from Cat.prems(1) have "ends_at_eos b" by simp
  from Cat.IH(2) [OF this m(2)] show ?case .
next
  case Eos
  then show ?case by (auto split: if_splits)
qed simp_all

lemma re_search_split:
  "re_search ic p s = Some (pre, g, r) \<Longrightarrow> prefix pre s \<and> suffix r s \<and> length pre + length r \<le> length s \<and>
     (\<exists>t. suffix t s \<and> s = pre @ t \<and> (g, r) \<in> set (rx ic p t))"
proof (induction s arbitrary: pre)
  case Nil
  then obtain rest where e: "rx ic p [] = (g, r) # rest" "pre = []"
    by (auto split: list.splits)
  then have m: "(g, r) \<in> set (rx ic p [])" by simp
  from rx_suffix [OF m] have "r = []" by simp
  with e m show ?case by auto
next
  case (Cons c s)
  show ?case
  proof (cases "rx ic p (c # s)")
    case Nil
    with Cons.prems obtain pre' where
      p: "re_search ic p s = Some (pre', g, r)" "pre = c # pre'"
      by (auto split: option.splits)
    from Cons.IH [OF p(1)] obtain t where
      "prefix pre' s" "suffix r s" "length pre' + length r \<le> length s"
      "suffix t s" "s = pre' @ t" "(g, r) \<in> set (rx ic p t)" by blast
    then show ?thesis using p(2) by (auto simp add: suffix_Cons)
  next
    case (Cons a list)
    with Cons.prems have e: "pre = []" "a = (g, r)" by (auto split: prod.splits)
    have m: "(g, r) \<in> set (rx ic p (c # s))" using Cons e by simp
    from rx_suffix [OF m] have sf: "suffix r (c # s)" .
    have "length r \<le> length (c # s)" using sf by (rule suffix_length_le)
    then show ?thesis using e(1) m sf by auto
  qed
qed

lemma re_split_sublist: "x \<in> set (re_split ic p s) \<Longrightarrow> sublist x s"
proof (induction ic p s rule: re_split.induct)
  case (1 ic p s)
  show ?case
  proof (cases "re_search ic p s")
    case None
    with "1.prems" show ?thesis by (subst (asm) re_split.simps) simp
  next
    case (Some a)
    obtain pre g r where a: "a = (pre, g, r)" by (cases a)
    note sp = re_search_split [OF Some [unfolded a]]
    show ?thesis
    proof (cases "length r < length s")
      case True
      from "1.prems" have "x = pre \<or> x \<in> set (re_split ic p r)"
        by (subst (asm) re_split.simps) (simp add: Some a True)
      then show ?thesis
      proof
        assume "x = pre"
        then show ?thesis using sp by auto
      next
        assume "x \<in> set (re_split ic p r)"
        from "1.IH" [OF Some [unfolded a] refl refl True this] have "sublist x r" .
        moreover have "sublist r s" using sp by auto
        ultimately show ?thesis by (rule sublist_order.order_trans)
      qed
    next
      case False
      from "1.prems" have "x = s"
        by (subst (asm) re_split.simps) (simp add: Some a False)
      then show ?thesis by simp
    qed
  qed
qed

lemma strip_sublist: "sublist (strip s) s"
proof -
  have 1: "suffix (lstrip s) s" unfolding lstrip_def by (rule suffix_dropWhile)
  have "suffix (dropWhile py_isspace (rev (lstrip s))) (rev (lstrip s))" by (rule suffix_dropWhile)
  then have 2: "prefix (rstrip (lstrip s)) (lstrip s)"
    unfolding rstrip_def by (simp add: suffix_to_prefix)
  show ?thesis unfolding strip_def
    using 1 2 by (meson prefix_imp_sublist suffix_imp_sublist sublist_order.order_trans)
qed

subsection \<open>A parsed condition needs a comparison word in the text\<close>

lemma has_keyword_mono: "sublist a b \<Longrightarrow> has_keyword a \<Longrightarrow> has_keyword b"
  unfolding has_keyword_def by (meson sublist_lower sublist_order.order_trans)

lemma re_match_mentions:
  assumes "re_match True p s = Some g" and "mentions kw p"
  shows "sublist kw (lower s)"
proof -
  from assms(1) obtain r rest where "rx True p s = (g, r) # rest"
    by (auto simp add: re_match_def split: list.splits)
  then have "(g, r) \<in> set (rx True p s)" by simp
  from rx_mentions [OF assms(2) this] show ?thesis .
qed

lemma patterns_mention:
  "mentions ''equal'' not_equal_pattern" "mentions ''contain'' not_contain_pattern"
  "mentions ''equal'' equals_pattern" "mentions ''start'' starts_pattern"
  "mentions ''contain'' contains_pattern"
  by code_simp+

lemma parse_sub_part_keyword:
  assumes "parse_sub_part s \<noteq> []"
  shows "has_keyword s"
proof -
  have "re_match True not_equal_pattern s \<noteq> None \<or> re_match True not_contain_pattern s \<noteq> None \<or>
        re_match True equals_pattern s \<noteq> None \<or> re_match True starts_pattern s \<noteq> None \<or>
        re_match True contains_pattern s \<noteq> None"
    using assms by (auto simp add: parse_sub_part_def split: option.splits)
  then show ?thesis
    unfolding has_keyword_def
    using re_match_mentions patterns_mention by blast
qed

lemma parse_sub_parts_keyword:
  "parse_sub_parts sps \<noteq> [] \<Longrightarrow> \<exists>sp\<in>set sps. has_keyword sp"
proof (induction sps)
  case Nil
  then show ?case by simp
next
  case (Cons sp sps)
  show ?case
  proof (cases "strip sp \<noteq> [] \<and> parse_sub_part (strip sp) \<noteq> []")
    case True
    then have "has_keyword (strip sp)" by (intro parse_sub_part_keyword) simp
    then have "has_keyword sp" using has_keyword_mono [OF strip_sublist] by blast
    then show ?thesis by simp
  next
    case False
    then have "parse_sub_parts sps \<noteq> []" using Cons.prems by (auto simp add: Let_def split: if_splits)
    from Cons.IH [OF this] show ?thesis by simp
  qed
qed

lemma sub_empty_Nil: "re_sub_empty True in_all_items_suffix [] = []"
  by code_simp

lemma sub_empty_nl: "re_sub_empty True in_all_items_suffix [CHR 0x0A] = [CHR 0x0A]"
  by code_simp

lemma lower_nl: "lower [CHR 0x0A] = [CHR 0x0A]"
  by code_simp

lemma sublist_snoc_other:
  assumes "sublist kw (ys @ [c])" and "kw \<noteq> []" and "c \<notin> set kw"
  shows "sublist kw ys"
proof -
  from assms(1) have "suffix kw (ys @ [c]) \<or> sublist kw ys" by (simp add: sublist_snoc)
  then show ?thesis
  proof
    assume "suffix kw (ys @ [c])"
    then obtain zs where "ys @ [c] = zs @ kw" by (auto simp add: suffix_def)
    then have "last kw = c" using assms(2) by (metis last_appendR last_snoc)
    then have "c \<in> set kw" using assms(2) by (metis last_in_set)
    with assms(3) show ?thesis by simp
  qed simp
qed

lemma in_all_items_ends: "ends_at_eos in_all_items_suffix"
  by code_simp

lemma sub_in_all_items:
  "\<exists>pre r. prefix pre s \<and> (r = [] \<or> r = [CHR 0x0A]) \<and>
           re_sub_empty True in_all_items_suffix s = pre @ r"
proof (cases "re_search True in_all_items_suffix s")
  case None
  then have "re_sub_empty True in_all_items_suffix s = s @ []"
    by (subst re_sub_empty.simps) simp
  then show ?thesis by blast
next
  case (Some a)
  obtain pre g r where a: "a = (pre, g, r)" by (cases a)
  from re_search_split [OF Some [unfolded a]] obtain t where
    sp: "prefix pre s" "(g, r) \<in> set (rx True in_all_items_suffix t)" by blast
  from rx_ends_at_eos [OF in_all_items_ends sp(2)] have r: "r = [] \<or> r = [CHR 0x0A]" .
  show ?thesis
  proof (cases "length r < length s")
    case True
    then have "re_sub_empty True in_all_items_suffix s = pre @ re_sub_empty True in_all_items_suffix r"
      by (subst re_sub_empty.simps) (simp add: Some a)
    also have "re_sub_empty True in_all_items_suffix r = r"
      using r sub_empty_Nil sub_empty_nl by auto
    finally show ?thesis using sp(1) r by blast
  next
    case False
    then have "re_sub_empty True in_all_items_suffix s = s @ []"
      by (subst re_sub_empty.simps) (simp add: Some a)
    then show ?thesis by blast
  qed
qed

lemma sub_in_all_items_keyword:
  assumes "has_keyword (re_sub_empty True in_all_items_suffix s)"
  shows "has_keyword s"
proof -
  from sub_in_all_items [of s] obtain pre r where
    p: "prefix pre s" "r = [] \<or> r = [CHR 0x0A]" "re_sub_empty True in_all_items_suffix s = pre @ r"
    by blast
  have k: "sublist kw (lower pre)"
    if "sublist kw (lower (pre @ r))" "kw \<noteq> []" "CHR 0x0A \<notin> set kw" for kw
  proof (cases "r = []")
    case True
    with that show ?thesis by simp
  next
    case False
    with p(2) have "lower (pre @ r) = lower pre @ [CHR 0x0A]"
      using lower_nl by (simp add: lower_def)
    with that show ?thesis using sublist_snoc_other by metis
  qed
  have "has_keyword pre"
    using assms unfolding p(3) has_keyword_def
    using k [of "''equal''"] k [of "''contain''"] k [of "''start''"] by auto
  then show ?thesis using has_keyword_mono [OF prefix_imp_sublist [OF p(1)]] by blast
qed

lemma parse_parts_keyword:
  "parse_parts ps \<noteq> [] \<Longrightarrow> \<exists>p\<in>set ps. has_keyword p"
proof (induction ps)
  case Nil
  then show ?case by simp
next
  case (Cons p ps)
  let ?part = "strip p"
  let ?subs = "re_split True and_connective (re_sub_empty True in_all_items_suffix ?part)"
  show ?case
  proof (cases "?part \<noteq> [] \<and> parse_sub_parts ?subs \<noteq> []")
    case True
    then obtain sp where sp: "sp \<in> set ?subs" "has_keyword sp"
      using parse_sub_parts_keyword by blast
    from re_split_sublist [OF sp(1)] sp(2)
    have "has_keyword (re_sub_empty True in_all_items_suffix ?part)"
      using has_keyword_mono by blast
    then have "has_keyword ?part" by (rule sub_in_all_items_keyword)
    then have "has_keyword p" using has_keyword_mono [OF strip_sublist] by blast
    then show ?thesis by simp
  next
    case False
    then have "parse_parts ps \<noteq> []" using Cons.prems by (auto simp add: Let_def split: if_splits)
    from Cons.IH [OF this] show ?thesis by simp
  qed
qed

lemma parse_text_keyword:
  assumes "parse_applies_if_text s \<noteq> []"
  shows "has_keyword s"
proof -
  have "parse_parts (re_split False numbered_marker (strip s)) \<noteq> []"
    using assms by (auto simp add: parse_applies_if_text_def Let_def split: if_splits)
  then obtain p where p: "p \<in> set (re_split False numbered_marker (strip s))" "has_keyword p"
    using parse_parts_keyword by blast
  from re_split_sublist [OF p(1)] p(2) have "has_keyword (strip s)"
    using has_keyword_mono by blast
  then show ?thesis using has_keyword_mono [OF strip_sublist] by blast
qed

subsection \<open>Texts that parse to no condition\<close>

lemma emit_values: "c \<in> set (emit kind g) \<Longrightarrow> snd (snd c) \<noteq> []"
  by (auto simp add: emit_def Let_def split: list.splits if_splits)

lemma parse_sub_part_values: "c \<in> set (parse_sub_part s) \<Longrightarrow> snd (snd c) \<noteq> []"
  by (auto simp add: parse_sub_part_def split: option.splits dest: emit_values)

lemma parse_sub_parts_values: "c \<in> set (parse_sub_parts sps) \<Longrightarrow> snd (snd c) \<noteq> []"
  by (induction sps) (auto simp add: Let_def split: if_splits dest: parse_sub_part_values)

lemma parse_parts_values: "c \<in> set (parse_parts ps) \<Longrightarrow> snd (snd c) \<noteq> []"
  by (induction ps) (auto simp add: Let_def split: if_splits dest: parse_sub_parts_values)

lemma parse_text_values: "c \<in> set (parse_applies_if_text s) \<Longrightarrow> snd (snd c) \<noteq> []"
  by (auto simp add: parse_applies_if_text_def Let_def split: if_splits dest: parse_parts_values)

lemma parse_condition_values:
  "c \<in> set (parse_applies_if_condition rt x) \<Longrightarrow> snd (snd c) \<noteq> []"
  by (auto simp add: parse_applies_if_condition_def split: if_splits dest: parse_text_values)

lemma parse_sub_part_unmatched:
  "re_match True not_equal_pattern s = None \<Longrightarrow> re_match True not_contain_pattern s = None \<Longrightarrow>
   re_match True equals_pattern s = None \<Longrightarrow> re_match True starts_pattern s = None \<Longrightarrow>
   re_match True contains_pattern s = None \<Longrightarrow> parse_sub_part s = []"
  by (simp add: parse_sub_part_def)

text \<open>
  C6.  The parser is a total function into condition lists: the model has no error
  value because the source has no statement that raises on a cell.  It returns the empty
  list for \<open>None\<close>, for \<open>nan\<close>, for an empty or blank text and for a text with
  \<open>no condition\<close>; for a short \<open>applies if invoiced ... carrier\<close> sentence without one of
  the words the source tests; for every text, of any length, without a comparison word
  (\<open>equal\<close>, \<open>contain\<close>, \<open>start\<close>), such a sentence included; a sub-clause that no pattern
  matches contributes nothing, and neither does one whose pattern matches without a
  quoted value, since every condition in a result has at least one value.  The evaluator
  reports the empty list as satisfied, with no reason.
\<close>

theorem parser_yields_empty_list:
  "parse_applies_if_condition rt CNone = [] \<and>
   parse_applies_if_condition rt CNaN = [] \<and>
   parse_applies_if_condition rt (CStr []) = [] \<and>
   (strip s = [] \<or> sublist ''no condition'' (lower (strip s)) \<longrightarrow>
      parse_applies_if_condition rt (CStr s) = []) \<and>
   (sublist ''applies if invoiced'' (lower (strip s)) \<and> sublist ''carrier'' (lower (strip s)) \<and>
    length (strip s) < 50 \<and> \<not> sublist ''equals'' (lower (strip s)) \<and>
    \<not> sublist ''starts'' (lower (strip s)) \<and> \<not> sublist ''contains'' (lower (strip s)) \<longrightarrow>
      parse_applies_if_condition rt (CStr s) = []) \<and>
   (\<not> has_keyword s \<longrightarrow> parse_applies_if_condition rt (CStr s) = []) \<and>
   (re_match True not_equal_pattern sp = None \<and> re_match True not_contain_pattern sp = None \<and>
    re_match True equals_pattern sp = None \<and> re_match True starts_pattern sp = None \<and>
    re_match True contains_pattern sp = None \<longrightarrow> parse_sub_part sp = []) \<and>
   (\<forall>c\<in>set (parse_sub_part sp). snd (snd c) \<noteq> []) \<and>
   (\<forall>c\<in>set (parse_applies_if_condition rt x). snd (snd c) \<noteq> []) \<and>
   check_applies_if_condition rt [] etof row = (True, None)"
proof -
  have 1: "parse_applies_if_condition rt CNone = []" "parse_applies_if_condition rt CNaN = []"
    "parse_applies_if_condition rt (CStr []) = []"
    by (simp_all add: parse_applies_if_condition_def)
  have 2: "parse_applies_if_condition rt (CStr s) = []"
    if "strip s = [] \<or> sublist ''no condition'' (lower (strip s))"
    using that by (auto simp add: parse_applies_if_condition_def parse_applies_if_text_def Let_def)
  have 3: "parse_applies_if_condition rt (CStr s) = []"
    if "sublist ''applies if invoiced'' (lower (strip s)) \<and> sublist ''carrier'' (lower (strip s)) \<and>
        length (strip s) < 50 \<and> \<not> sublist ''equals'' (lower (strip s)) \<and>
        \<not> sublist ''starts'' (lower (strip s)) \<and> \<not> sublist ''contains'' (lower (strip s))"
    using that by (auto simp add: parse_applies_if_condition_def parse_applies_if_text_def Let_def)
  have 4: "parse_applies_if_condition rt (CStr s) = []" if "\<not> has_keyword s"
  proof -
    have "parse_applies_if_text s = []" using that parse_text_keyword by blast
    then show ?thesis by (simp add: parse_applies_if_condition_def)
  qed
  have 5: "parse_sub_part sp = []"
    if "re_match True not_equal_pattern sp = None \<and> re_match True not_contain_pattern sp = None \<and>
        re_match True equals_pattern sp = None \<and> re_match True starts_pattern sp = None \<and>
        re_match True contains_pattern sp = None"
    using that by (simp add: parse_sub_part_def)
  have 6: "\<forall>c\<in>set (parse_sub_part sp). snd (snd c) \<noteq> []"
    using parse_sub_part_values by blast
  have 7: "\<forall>c\<in>set (parse_applies_if_condition rt x). snd (snd c) \<noteq> []"
    using parse_condition_values by blast
  have 8: "check_applies_if_condition rt [] etof row = (True, None)" by simp
  from 1 2 3 4 5 6 7 8 show ?thesis by blast
qed


theorem parser_yields_empty_list_witness:
  "\<not> has_keyword ''Applies if invoiced by Carrier under the agreed frame contract terms'' \<and>
   50 \<le> length ''Applies if invoiced by Carrier under the agreed frame contract terms'' \<and>
   parse_applies_if_condition ex_rt
     (CStr ''Applies if invoiced by Carrier under the agreed frame contract terms'') = [] \<and>
   sublist ''no condition'' (lower (strip ''No condition'')) \<and>
   parse_applies_if_condition ex_rt (CStr ''No condition'') = [] \<and>
   re_match True equals_pattern ''Carrier equals DHL'' = Some [''Carrier'', ''DHL''] \<and>
   parse_applies_if_condition ex_rt (CStr ''Carrier equals DHL'') = []"
proof -
  let ?s = "''Applies if invoiced by Carrier under the agreed frame contract terms''"
  have h1: "\<not> has_keyword ?s" by code_simp
  have h2: "50 \<le> length ?s" by simp
  have h3: "sublist ''no condition'' (lower (strip ''No condition''))" by code_simp
  have a: "parse_applies_if_condition ex_rt (CStr ?s) = []"
    using parser_yields_empty_list [where rt = ex_rt and s = ?s] h1 by blast
  have b: "parse_applies_if_condition ex_rt (CStr ''No condition'') = []"
    using parser_yields_empty_list [where rt = ex_rt and s = "''No condition''"] h3 by blast
  have c: "re_match True equals_pattern ''Carrier equals DHL'' = Some [''Carrier'', ''DHL'']"
    by code_simp
  have d: "parse_applies_if_condition ex_rt (CStr ''Carrier equals DHL'') = []"
    by code_simp
  from h1 h2 h3 a b c d show ?thesis by blast
qed

subsection \<open>The priority of the comparison patterns\<close>

lemma parse_sub_part_first:
  "parse_sub_part s =
   (case find (\<lambda>(p, kind). re_match True p s \<noteq> None) comparison_patterns of
      None \<Rightarrow> []
    | Some (p, kind) \<Rightarrow> (case re_match True p s of Some g \<Rightarrow> emit kind g | None \<Rightarrow> []))"
  by (simp add: parse_sub_part_def comparison_patterns_def split: option.splits)

lemma parse_sub_part_kinds:
  assumes "c \<in> set (parse_sub_part s)"
  shows "(fst (snd c) = DoesNotEqual \<longleftrightarrow> re_match True not_equal_pattern s \<noteq> None) \<and>
         (fst (snd c) = DoesNotContain \<longleftrightarrow>
            re_match True not_equal_pattern s = None \<and> re_match True not_contain_pattern s \<noteq> None) \<and>
         (fst (snd c) = Equals \<longleftrightarrow>
            re_match True not_equal_pattern s = None \<and> re_match True not_contain_pattern s = None \<and>
            re_match True equals_pattern s \<noteq> None) \<and>
         (fst (snd c) = StartsWith \<longleftrightarrow>
            re_match True not_equal_pattern s = None \<and> re_match True not_contain_pattern s = None \<and>
            re_match True equals_pattern s = None \<and> re_match True starts_pattern s \<noteq> None) \<and>
         (fst (snd c) = Contains \<longleftrightarrow>
            re_match True not_equal_pattern s = None \<and> re_match True not_contain_pattern s = None \<and>
            re_match True equals_pattern s = None \<and> re_match True starts_pattern s = None \<and>
            re_match True contains_pattern s \<noteq> None)"
proof -
  have k: "fst (snd c) = kind" if "c \<in> set (emit kind g)" for kind g
    using that by (auto simp add: emit_def Let_def split: list.splits if_splits)
  show ?thesis
  proof (cases "re_match True not_equal_pattern s")
    case (Some g)
    with assms have "c \<in> set (emit DoesNotEqual g)" by (simp add: parse_sub_part_def)
    from k [OF this] Some show ?thesis by simp
  next
    case n1: None
    show ?thesis
    proof (cases "re_match True not_contain_pattern s")
      case (Some g)
      with assms n1 have "c \<in> set (emit DoesNotContain g)" by (simp add: parse_sub_part_def)
      from k [OF this] Some n1 show ?thesis by simp
    next
      case n2: None
      show ?thesis
      proof (cases "re_match True equals_pattern s")
        case (Some g)
        with assms n1 n2 have "c \<in> set (emit Equals g)" by (simp add: parse_sub_part_def)
        from k [OF this] Some n1 n2 show ?thesis by simp
      next
        case n3: None
        show ?thesis
        proof (cases "re_match True starts_pattern s")
          case (Some g)
          with assms n1 n2 n3 have "c \<in> set (emit StartsWith g)" by (simp add: parse_sub_part_def)
          from k [OF this] Some n1 n2 n3 show ?thesis by simp
        next
          case n4: None
          show ?thesis
          proof (cases "re_match True contains_pattern s")
            case (Some g)
            with assms n1 n2 n3 n4 have "c \<in> set (emit Contains g)" by (simp add: parse_sub_part_def)
            from k [OF this] Some n1 n2 n3 n4 show ?thesis by simp
          next
            case None
            with assms n1 n2 n3 n4 show ?thesis by (simp add: parse_sub_part_def)
          qed
        qed
      qed
    qed
  qed
qed

lemma star_rests_all: "\<forall>c\<in>set t. p c \<Longrightarrow> \<exists>ys. star_rests p t = [] # ys"
  by (induction t) auto

lemma star_rests_until:
  "\<forall>c\<in>set v. p c \<Longrightarrow> \<not> p d \<Longrightarrow> \<exists>ys. star_rests p (v @ d # t) = (d # t) # ys"
  by (induction v) auto

lemma lazy_plus_rests_prefix:
  "col \<noteq> [] \<Longrightarrow> \<forall>c\<in>set col. p c \<Longrightarrow>
   \<exists>xs. lazy_plus_rests p (col @ rest) = xs @ rest # lazy_plus_rests p rest \<and>
        (\<forall>t\<in>set xs. t \<noteq> [] \<and> hd t \<in> set col)"
proof (induction col)
  case Nil
  then show ?case by simp
next
  case (Cons c col)
  show ?case
  proof (cases "col = []")
    case True
    have "lazy_plus_rests p ((c # col) @ rest) = [] @ rest # lazy_plus_rests p rest"
      using Cons.prems True by simp
    then show ?thesis by (metis empty_iff list.set(1))
  next
    case False
    from Cons.IH [OF False] Cons.prems obtain xs where
      x: "lazy_plus_rests p (col @ rest) = xs @ rest # lazy_plus_rests p rest"
         "\<forall>t\<in>set xs. t \<noteq> [] \<and> hd t \<in> set col"
      by auto
    have "lazy_plus_rests p ((c # col) @ rest) =
          ((col @ rest) # xs) @ rest # lazy_plus_rests p rest"
      using Cons.prems x(1) by simp
    moreover have "\<forall>t\<in>set ((col @ rest) # xs). t \<noteq> [] \<and> hd t \<in> set (c # col)"
      using x(2) False by (auto simp add: hd_append)
    ultimately show ?thesis by blast
  qed
qed

lemma plus_ws_fails: "t \<noteq> [] \<Longrightarrow> \<not> py_isspace (hd t) \<Longrightarrow> rx ic (Cat (Plus WS) b) t = []"
  by (cases t) simp_all

lemma not_space_not_nl: "\<not> py_isspace c \<Longrightarrow> c \<noteq> CHR 0x0A"
proof
  assume a: "\<not> py_isspace c" and "c = CHR 0x0A"
  moreover have "py_isspace (CHR 0x0A)" by code_simp
  ultimately show False by simp
qed

lemma rx_group_lazy_cat:
  assumes "col \<noteq> []" and "\<forall>c\<in>set col. \<not> py_isspace c"
      and "rx True (Cat (Plus WS) b) rest = (g2, r) # zs"
  shows "\<exists>ws. rx True (Cat (Group (LazyPlus Dot)) (Cat (Plus WS) b)) (col @ rest) = (col # g2, r) # ws"
proof -
  let ?tail = "Cat (Plus WS) b"
  let ?s = "col @ rest"
  let ?G = "\<lambda>t. ([take (length ?s - length t) ?s], t)"
  let ?F = "\<lambda>(g1, s1). map (\<lambda>(g2, s2). (g1 @ g2, s2)) (rx True ?tail s1)"
  have dot: "\<forall>c\<in>set col. cc_ok True Dot c"
    using assms(2) not_space_not_nl by auto
  from lazy_plus_rests_prefix [OF assms(1) dot, of rest] obtain xs where
    x: "lazy_plus_rests (cc_ok True Dot) ?s = xs @ rest # lazy_plus_rests (cc_ok True Dot) rest"
       "\<forall>t\<in>set xs. t \<noteq> [] \<and> hd t \<in> set col"
    by blast
  have g: "rx True (Group (LazyPlus Dot)) ?s = map ?G (lazy_plus_rests (cc_ok True Dot) ?s)"
    by (simp add: comp_def)
  have skip: "concat (map ?F (map ?G xs)) = []"
  proof -
    have "?F (?G t) = []" if "t \<in> set xs" for t
    proof -
      from x(2) that have "t \<noteq> []" "\<not> py_isspace (hd t)" using assms(2) by auto
      from plus_ws_fails [OF this] show ?thesis by simp
    qed
    then show ?thesis by (simp add: concat_eq_Nil_conv)
  qed
  have here: "?F (?G rest) = (col # g2, r) # map (\<lambda>(g2, s2). ([col] @ g2, s2)) zs"
    using assms(3) by simp
  have "rx True (Cat (Group (LazyPlus Dot)) ?tail) ?s =
        concat (map ?F (map ?G (xs @ rest # lazy_plus_rests (cc_ok True Dot) rest)))"
    unfolding rx.simps(3) g x(1) ..
  also have "\<dots> = concat (map ?F (map ?G xs)) @ ?F (?G rest) @
                   concat (map ?F (map ?G (lazy_plus_rests (cc_ok True Dot) rest)))"
    by simp
  also have "\<dots> = (col # g2, r) #
       (map (\<lambda>(g2, s2). ([col] @ g2, s2)) zs @
        concat (map ?F (map ?G (lazy_plus_rests (cc_ok True Dot) rest))))"
    unfolding skip here by simp
  finally show ?thesis by blast
qed

lemma strip_id:
  assumes "s \<noteq> []" and "\<not> py_isspace (hd s)" and "\<not> py_isspace (last s)"
  shows "strip s = s"
proof -
  have l: "dropWhile py_isspace s = s"
    using assms(1,2) by (cases s) simp_all
  have "rev s \<noteq> []" "\<not> py_isspace (hd (rev s))"
    using assms(1,3) by (simp_all add: hd_rev)
  then have r: "dropWhile py_isspace (rev s) = rev s"
    by (cases "rev s") simp_all
  show ?thesis by (simp add: strip_def lstrip_def rstrip_def l r)
qed

lemma findall_quoted:
  assumes "\<forall>c\<in>set v. c \<noteq> CHR 0x27"
  shows "re_findall1 False quoted_value (CHR 0x27 # v @ [CHR 0x27]) = [v]"
proof -
  have p: "\<forall>c\<in>set v. cc_ok False (NotCh CHR 0x27) c" using assms by simp
  have n: "\<not> cc_ok False (NotCh CHR 0x27) CHR 0x27" by simp
  from star_rests_until [OF p n, of "[]"] obtain ys where
    E: "star_rests (cc_ok False (NotCh CHR 0x27)) (v @ [CHR 0x27]) = [CHR 0x27] # ys"
    by blast
  have "\<exists>zs. rx False quoted_value (CHR 0x27 # v @ [CHR 0x27]) = ([v], []) # zs"
    by (simp add: quoted_value_def E)
  then obtain zs where m: "rx False quoted_value (CHR 0x27 # v @ [CHR 0x27]) = ([v], []) # zs"
    by blast
  have s: "re_search False quoted_value (CHR 0x27 # v @ [CHR 0x27]) = Some ([], [v], [])"
    by (simp add: m)
  have e: "re_findall1 False quoted_value [] = []"
    by code_simp
  show ?thesis
    by (subst re_findall1.simps, subst s, simp del: re_findall1.simps add: e)
qed

lemma not_equal_tail:
  assumes "\<forall>c\<in>set v. c \<noteq> CHR 0x0A"
  shows "\<exists>r zs. rx True (Cat (Plus WS) (seq [Lit ''does'', Plus WS, Lit ''not'', Plus WS,
            Lit ''equal'', Star WS, Opt (seq [Lit ''to'', Plus WS]), Group (Plus Dot)]))
          ('' does not equal to '' @ CHR 0x27 # v @ [CHR 0x27]) =
         ([CHR 0x27 # v @ [CHR 0x27]], r) # zs"
proof -
  have "\<forall>c\<in>set (v @ [CHR 0x27]). cc_ok True Dot c" using assms by simp
  from star_rests_all [OF this] obtain ys where
    E: "star_rests (cc_ok True Dot) (v @ [CHR 0x27]) = [] # ys"
    by blast
  show ?thesis
    by (simp add: E py_isspace_def lower_char_def)
qed

lemma rx_group_lazy_some:
  assumes "col \<noteq> []" and "\<forall>c\<in>set col. c \<noteq> CHR 0x0A" and "rx True b rest \<noteq> []"
  shows "rx True (Cat (Group (LazyPlus Dot)) b) (col @ rest) \<noteq> []"
proof -
  let ?s = "col @ rest"
  let ?G = "\<lambda>t. ([take (length ?s - length t) ?s], t)"
  let ?F = "\<lambda>(g1, s1). map (\<lambda>(g2, s2). (g1 @ g2, s2)) (rx True b s1)"
  have dot: "\<forall>c\<in>set col. cc_ok True Dot c" using assms(2) by simp
  from lazy_plus_rests_prefix [OF assms(1) dot, of rest] obtain xs where
    x: "lazy_plus_rests (cc_ok True Dot) ?s = xs @ rest # lazy_plus_rests (cc_ok True Dot) rest"
    by blast
  have r: "rest \<in> set (lazy_plus_rests (cc_ok True Dot) ?s)"
    unfolding x by simp
  have g: "rx True (Group (LazyPlus Dot)) ?s = map ?G (lazy_plus_rests (cc_ok True Dot) ?s)"
    by (simp add: comp_def)
  have m: "?G rest \<in> set (rx True (Group (LazyPlus Dot)) ?s)"
    unfolding g set_map by (rule image_eqI [where x = rest]) (simp_all add: r)
  have "?F (?G rest) \<noteq> []" using assms(3) by simp
  with m have "\<exists>x\<in>set (rx True (Group (LazyPlus Dot)) ?s). ?F x \<noteq> []" by blast
  then have "concat (map ?F (rx True (Group (LazyPlus Dot)) ?s)) \<noteq> []"
    by (simp add: concat_eq_Nil_conv)
  then show ?thesis unfolding rx.simps(3) .
qed

lemma not_equal_tail_some:
  "rx True (Cat (Plus WS) (seq [Lit ''does'', Plus WS, Lit ''not'', Plus WS,
            Lit ''equal'', Star WS, Opt (seq [Lit ''to'', Plus WS]), Group (Plus Dot)]))
          ('' does not equal to '' @ CHR 0x27 # w) \<noteq> []"
  by (simp add: py_isspace_def lower_char_def)

lemma not_contain_tail_some:
  "rx True (Cat (Plus WS) (seq [Lit ''does'', Plus WS, Lit ''not'', Plus WS,
            Lit ''contain'', Star WS, Group (Plus Dot)]))
          ('' does not contain '' @ CHR 0x27 # w) \<noteq> []"
  by (simp add: py_isspace_def lower_char_def)

lemma not_contain_tail:
  assumes "\<forall>c\<in>set v. c \<noteq> CHR 0x0A"
  shows "\<exists>r zs. rx True (Cat (Plus WS) (seq [Lit ''does'', Plus WS, Lit ''not'', Plus WS,
            Lit ''contain'', Star WS, Group (Plus Dot)]))
          ('' does not contain '' @ CHR 0x27 # v @ [CHR 0x27]) =
         ([CHR 0x27 # v @ [CHR 0x27]], r) # zs"
proof -
  have "\<forall>c\<in>set (v @ [CHR 0x27]). cc_ok True Dot c" using assms by simp
  from star_rests_all [OF this] obtain ys where
    E: "star_rests (cc_ok True Dot) (v @ [CHR 0x27]) = [] # ys"
    by blast
  show ?thesis
    by (simp add: E py_isspace_def lower_char_def)
qed

lemma not_equal_matches:
  assumes "col \<noteq> []" and "\<forall>c\<in>set col. c \<noteq> CHR 0x0A"
  shows "re_match True not_equal_pattern (col @ '' does not equal to '' @ CHR 0x27 # w) \<noteq> None"
proof -
  have "rx True not_equal_pattern (col @ '' does not equal to '' @ CHR 0x27 # w) \<noteq> []"
    unfolding not_equal_pattern_def seq.simps(3)
    using rx_group_lazy_some [OF assms not_equal_tail_some [unfolded seq.simps(3)]] .
  then show ?thesis by (simp add: re_match_def split: list.splits)
qed

lemma not_contain_matches:
  assumes "col \<noteq> []" and "\<forall>c\<in>set col. c \<noteq> CHR 0x0A"
  shows "re_match True not_contain_pattern (col @ '' does not contain '' @ CHR 0x27 # w) \<noteq> None"
proof -
  have "rx True not_contain_pattern (col @ '' does not contain '' @ CHR 0x27 # w) \<noteq> []"
    unfolding not_contain_pattern_def seq.simps(3)
    using rx_group_lazy_some [OF assms not_contain_tail_some [unfolded seq.simps(3)]] .
  then show ?thesis by (simp add: re_match_def split: list.splits)
qed

lemma emit_column_value:
  assumes "col \<noteq> []" and "\<forall>c\<in>set col. \<not> py_isspace c" and "\<forall>c\<in>set v. c \<noteq> CHR 0x27"
  shows "emit kind [col, CHR 0x27 # v @ [CHR 0x27]] = [(col, kind, [v])]"
proof -
  have q: "\<not> py_isspace CHR 0x27" by code_simp
  have "hd col \<in> set col" "last col \<in> set col" using assms(1) by simp_all
  then have c: "strip col = col" using assms(1,2) strip_id by blast
  have v: "strip (CHR 0x27 # v @ [CHR 0x27]) = CHR 0x27 # v @ [CHR 0x27]"
    by (rule strip_id) (simp_all add: q)
  show ?thesis
    by (simp add: emit_def c v findall_quoted [OF assms(3)] del: re_findall1.simps)
qed

lemma not_equal_groups:
  assumes "col \<noteq> []" and "\<forall>c\<in>set col. \<not> py_isspace c" and "\<forall>c\<in>set v. c \<noteq> CHR 0x0A"
  shows "re_match True not_equal_pattern (col @ '' does not equal to '' @ CHR 0x27 # v @ [CHR 0x27]) =
         Some [col, CHR 0x27 # v @ [CHR 0x27]]"
proof -
  from not_equal_tail [OF assms(3)] obtain r zs where
    "rx True (Cat (Plus WS) (seq [Lit ''does'', Plus WS, Lit ''not'', Plus WS,
            Lit ''equal'', Star WS, Opt (seq [Lit ''to'', Plus WS]), Group (Plus Dot)]))
          ('' does not equal to '' @ CHR 0x27 # v @ [CHR 0x27]) =
         ([CHR 0x27 # v @ [CHR 0x27]], r) # zs"
    by blast
  from rx_group_lazy_cat [OF assms(1,2) this] obtain ws where
    "rx True not_equal_pattern (col @ '' does not equal to '' @ CHR 0x27 # v @ [CHR 0x27]) =
     ([col, CHR 0x27 # v @ [CHR 0x27]], r) # ws"
    unfolding not_equal_pattern_def seq.simps(3) by blast
  then show ?thesis by (simp add: re_match_def)
qed

lemma not_contain_groups:
  assumes "col \<noteq> []" and "\<forall>c\<in>set col. \<not> py_isspace c" and "\<forall>c\<in>set v. c \<noteq> CHR 0x0A"
  shows "re_match True not_contain_pattern (col @ '' does not contain '' @ CHR 0x27 # v @ [CHR 0x27]) =
         Some [col, CHR 0x27 # v @ [CHR 0x27]]"
proof -
  from not_contain_tail [OF assms(3)] obtain r zs where
    "rx True (Cat (Plus WS) (seq [Lit ''does'', Plus WS, Lit ''not'', Plus WS,
            Lit ''contain'', Star WS, Group (Plus Dot)]))
          ('' does not contain '' @ CHR 0x27 # v @ [CHR 0x27]) =
         ([CHR 0x27 # v @ [CHR 0x27]], r) # zs"
    by blast
  from rx_group_lazy_cat [OF assms(1,2) this] obtain ws where
    "rx True not_contain_pattern (col @ '' does not contain '' @ CHR 0x27 # v @ [CHR 0x27]) =
     ([col, CHR 0x27 # v @ [CHR 0x27]], r) # ws"
    unfolding not_contain_pattern_def seq.simps(3) by blast
  then show ?thesis by (simp add: re_match_def)
qed

lemma parse_sub_parts_origin:
  "c \<in> set (parse_sub_parts sps) \<Longrightarrow> \<exists>sp. c \<in> set (parse_sub_part sp)"
  by (induction sps) (auto simp add: Let_def split: if_splits)

lemma parse_parts_origin:
  "c \<in> set (parse_parts ps) \<Longrightarrow> \<exists>sp. c \<in> set (parse_sub_part sp)"
  by (induction ps) (auto simp add: Let_def split: if_splits dest: parse_sub_parts_origin)

lemma parse_condition_origin:
  "c \<in> set (parse_applies_if_condition rt x) \<Longrightarrow> \<exists>sp. c \<in> set (parse_sub_part sp)"
  by (auto simp add: parse_applies_if_condition_def parse_applies_if_text_def Let_def
           split: if_splits dest: parse_parts_origin)

lemma parse_sub_part_find:
  assumes "c \<in> set (parse_sub_part s)"
  shows "\<exists>p. find (\<lambda>(p, kind). re_match True p s \<noteq> None) comparison_patterns = Some (p, fst (snd c))"
proof -
  have k: "fst (snd c) = kind" if "c \<in> set (emit kind g)" for kind g
    using that by (auto simp add: emit_def Let_def split: list.splits if_splits)
  from assms show ?thesis
    unfolding parse_sub_part_first
    by (auto simp add: comparison_patterns_def split: option.splits if_splits dest: k)
qed

text \<open>
  Without a column text in front, the words \<open>does not\<close> are read as the column of a
  \<open>contains\<close> condition; the properties below are about a non-empty column text.
\<close>

lemma column_text_needed:
  "parse_sub_part (''does not contain '' @ [CHR 0x27] @ ''v'' @ [CHR 0x27]) =
     [(''does not'', Contains, [''v''])]"
  by code_simp

text \<open>
  C5.  The parser tries the five comparison patterns on a sub-clause in the order
  does-not-equal, does-not-contain, equals, starts-with, contains: the result is made
  from the first pattern of that list that matches, and every condition the parser
  returns has the kind of the first pattern that matched its sub-clause.  For a
  non-empty column text \<open>X\<close> on one line, the first pattern matches
  \<open>X does not equal to 'v'\<close>, so that every condition parsed from it is a
  \<open>does_not_equal\<close>, never an \<open>equals\<close>; the second pattern matches
  \<open>X does not contain 'v'\<close>, so that no condition parsed from it is a \<open>contains\<close>.  When
  \<open>X\<close> has no whitespace and \<open>v\<close> neither a quote nor a newline, the first text parses to
  exactly the condition \<open>X\<close> \<open>does_not_equal\<close> \<open>v\<close>, and the second, when it does not
  have the word \<open>equal\<close>, to exactly \<open>X\<close> \<open>does_not_contain\<close> \<open>v\<close>.
\<close>

theorem patterns_tried_in_priority_order:
  "map snd comparison_patterns = [DoesNotEqual, DoesNotContain, Equals, StartsWith, Contains] \<and>
   parse_sub_part s =
     (case find (\<lambda>(p, kind). re_match True p s \<noteq> None) comparison_patterns of
        None \<Rightarrow> []
      | Some (p, kind) \<Rightarrow> (case re_match True p s of Some g \<Rightarrow> emit kind g | None \<Rightarrow> [])) \<and>
   (\<forall>c\<in>set (parse_applies_if_condition rt x).
      \<exists>sp p. c \<in> set (parse_sub_part sp) \<and>
             find (\<lambda>(p, kind). re_match True p sp \<noteq> None) comparison_patterns =
               Some (p, fst (snd c))) \<and>
   (col \<noteq> [] \<and> (\<forall>c\<in>set col. c \<noteq> CHR 0x0A) \<longrightarrow>
      re_match True not_equal_pattern
        (col @ '' does not equal to '' @ [CHR 0x27] @ v @ [CHR 0x27]) \<noteq> None \<and>
      (\<forall>c\<in>set (parse_sub_part (col @ '' does not equal to '' @ [CHR 0x27] @ v @ [CHR 0x27])).
         fst (snd c) = DoesNotEqual) \<and>
      re_match True not_contain_pattern
        (col @ '' does not contain '' @ [CHR 0x27] @ v @ [CHR 0x27]) \<noteq> None \<and>
      (\<forall>c\<in>set (parse_sub_part (col @ '' does not contain '' @ [CHR 0x27] @ v @ [CHR 0x27])).
         fst (snd c) = DoesNotEqual \<or> fst (snd c) = DoesNotContain)) \<and>
   (col \<noteq> [] \<and> (\<forall>c\<in>set col. \<not> py_isspace c) \<and>
    (\<forall>c\<in>set v. c \<noteq> CHR 0x27 \<and> c \<noteq> CHR 0x0A) \<longrightarrow>
      parse_sub_part (col @ '' does not equal to '' @ [CHR 0x27] @ v @ [CHR 0x27]) =
        [(col, DoesNotEqual, [v])] \<and>
      (\<not> sublist ''equal'' (lower (col @ '' does not contain '' @ [CHR 0x27] @ v @ [CHR 0x27])) \<longrightarrow>
         parse_sub_part (col @ '' does not contain '' @ [CHR 0x27] @ v @ [CHR 0x27]) =
           [(col, DoesNotContain, [v])]))"
proof -
  let ?ne = "col @ '' does not equal to '' @ [CHR 0x27] @ v @ [CHR 0x27]"
  let ?nc = "col @ '' does not contain '' @ [CHR 0x27] @ v @ [CHR 0x27]"
  have ne: "?ne = col @ '' does not equal to '' @ CHR 0x27 # v @ [CHR 0x27]" by simp
  have nc: "?nc = col @ '' does not contain '' @ CHR 0x27 # v @ [CHR 0x27]" by simp
  have 1: "map snd comparison_patterns = [DoesNotEqual, DoesNotContain, Equals, StartsWith, Contains]"
    by (simp add: comparison_patterns_def)
  have 2: "parse_sub_part s =
     (case find (\<lambda>(p, kind). re_match True p s \<noteq> None) comparison_patterns of
        None \<Rightarrow> []
      | Some (p, kind) \<Rightarrow> (case re_match True p s of Some g \<Rightarrow> emit kind g | None \<Rightarrow> []))"
    by (rule parse_sub_part_first)
  have 3: "\<forall>c\<in>set (parse_applies_if_condition rt x).
      \<exists>sp p. c \<in> set (parse_sub_part sp) \<and>
             find (\<lambda>(p, kind). re_match True p sp \<noteq> None) comparison_patterns =
               Some (p, fst (snd c))"
  proof
    fix c assume "c \<in> set (parse_applies_if_condition rt x)"
    from parse_condition_origin [OF this] obtain sp where sp: "c \<in> set (parse_sub_part sp)"
      by blast
    from parse_sub_part_find [OF sp] sp
    show "\<exists>sp p. c \<in> set (parse_sub_part sp) \<and>
             find (\<lambda>(p, kind). re_match True p sp \<noteq> None) comparison_patterns =
               Some (p, fst (snd c))"
      by blast
  qed
  have 4: "re_match True not_equal_pattern ?ne \<noteq> None \<and>
      (\<forall>c\<in>set (parse_sub_part ?ne). fst (snd c) = DoesNotEqual) \<and>
      re_match True not_contain_pattern ?nc \<noteq> None \<and>
      (\<forall>c\<in>set (parse_sub_part ?nc). fst (snd c) = DoesNotEqual \<or> fst (snd c) = DoesNotContain)"
    if h: "col \<noteq> [] \<and> (\<forall>c\<in>set col. c \<noteq> CHR 0x0A)"
  proof -
    from h have a: "col \<noteq> []" and b: "\<forall>c\<in>set col. c \<noteq> CHR 0x0A" by simp_all
    have m1: "re_match True not_equal_pattern ?ne \<noteq> None"
      unfolding ne by (rule not_equal_matches [OF a b])
    have m2: "re_match True not_contain_pattern ?nc \<noteq> None"
      unfolding nc by (rule not_contain_matches [OF a b])
    have k1: "\<forall>c\<in>set (parse_sub_part ?ne). fst (snd c) = DoesNotEqual"
    proof
      fix c assume "c \<in> set (parse_sub_part ?ne)"
      from parse_sub_part_kinds [OF this] m1 show "fst (snd c) = DoesNotEqual" by blast
    qed
    have k2: "\<forall>c\<in>set (parse_sub_part ?nc). fst (snd c) = DoesNotEqual \<or> fst (snd c) = DoesNotContain"
    proof
      fix c assume "c \<in> set (parse_sub_part ?nc)"
      from parse_sub_part_kinds [OF this] m2
      show "fst (snd c) = DoesNotEqual \<or> fst (snd c) = DoesNotContain" by metis
    qed
    from m1 k1 m2 k2 show ?thesis by blast
  qed
  have 5: "parse_sub_part ?ne = [(col, DoesNotEqual, [v])] \<and>
      (\<not> sublist ''equal'' (lower ?nc) \<longrightarrow> parse_sub_part ?nc = [(col, DoesNotContain, [v])])"
    if h: "col \<noteq> [] \<and> (\<forall>c\<in>set col. \<not> py_isspace c) \<and>
           (\<forall>c\<in>set v. c \<noteq> CHR 0x27 \<and> c \<noteq> CHR 0x0A)"
  proof -
    from h have a: "col \<noteq> []" and b: "\<forall>c\<in>set col. \<not> py_isspace c"
      and q: "\<forall>c\<in>set v. c \<noteq> CHR 0x27" and n: "\<forall>c\<in>set v. c \<noteq> CHR 0x0A" by simp_all
    have e1: "parse_sub_part ?ne = [(col, DoesNotEqual, [v])]"
      unfolding ne parse_sub_part_def not_equal_groups [OF a b n]
      by (simp add: emit_column_value [OF a b q])
    have e2: "parse_sub_part ?nc = [(col, DoesNotContain, [v])]"
      if w: "\<not> sublist ''equal'' (lower ?nc)"
    proof -
      have "re_match True not_equal_pattern ?nc = None"
      proof (rule ccontr)
        assume "re_match True not_equal_pattern ?nc \<noteq> None"
        then obtain g where "re_match True not_equal_pattern ?nc = Some g" by blast
        from re_match_mentions [OF this patterns_mention(1)] w show False by blast
      qed
      then have f: "re_match True not_equal_pattern
                      (col @ '' does not contain '' @ CHR 0x27 # v @ [CHR 0x27]) = None"
        unfolding nc .
      show ?thesis
        unfolding nc parse_sub_part_def f not_contain_groups [OF a b n]
        by (simp add: emit_column_value [OF a b q])
    qed
    from e1 e2 show ?thesis by blast
  qed
  from 1 2 3 4 5 show ?thesis by blast
qed

theorem patterns_tried_in_priority_order_witness:
  "parse_sub_part (''X'' @ '' does not equal to '' @ [CHR 0x27] @ ''v'' @ [CHR 0x27]) =
     [(''X'', DoesNotEqual, [''v''])] \<and>
   parse_sub_part (''X'' @ '' does not contain '' @ [CHR 0x27] @ ''v'' @ [CHR 0x27]) =
     [(''X'', DoesNotContain, [''v''])] \<and>
   re_match True equals_pattern (''X does not equal to '' @ [CHR 0x27] @ ''v'' @ [CHR 0x27]) =
     Some [''X does not'', [CHR 0x27] @ ''v'' @ [CHR 0x27]] \<and>
   re_match True contains_pattern (''X does not contain '' @ [CHR 0x27] @ ''v'' @ [CHR 0x27]) =
     Some [''X does not'', [CHR 0x27] @ ''v'' @ [CHR 0x27]] \<and>
   parse_applies_if_condition ex_rt
     (CStr (''1. X does not equal to '' @ [CHR 0x27] @ ''v'' @ [CHR 0x27] @
            '' and Y does not contain '' @ [CHR 0x27] @ ''w'' @ [CHR 0x27])) =
     [(''X'', DoesNotEqual, [''v'']), (''Y'', DoesNotContain, [''w''])]"
proof -
  have h1: "''X'' \<noteq> [] \<and> (\<forall>c\<in>set ''X''. \<not> py_isspace c) \<and>
            (\<forall>c\<in>set ''v''. c \<noteq> CHR 0x27 \<and> c \<noteq> CHR 0x0A)"
    by (simp add: py_isspace_def)
  have h2: "\<not> sublist ''equal''
              (lower (''X'' @ '' does not contain '' @ [CHR 0x27] @ ''v'' @ [CHR 0x27]))"
    by code_simp
  note family = patterns_tried_in_priority_order [where col = "''X''" and v = "''v''",
      THEN conjunct2, THEN conjunct2, THEN conjunct2, THEN conjunct2, THEN mp, OF h1]
  have a: "parse_sub_part (''X'' @ '' does not equal to '' @ [CHR 0x27] @ ''v'' @ [CHR 0x27]) =
             [(''X'', DoesNotEqual, [''v''])]"
    by (rule family [THEN conjunct1])
  have b: "parse_sub_part (''X'' @ '' does not contain '' @ [CHR 0x27] @ ''v'' @ [CHR 0x27]) =
             [(''X'', DoesNotContain, [''v''])]"
    by (rule family [THEN conjunct2, THEN mp, OF h2])
  have c: "re_match True equals_pattern (''X does not equal to '' @ [CHR 0x27] @ ''v'' @ [CHR 0x27]) =
             Some [''X does not'', [CHR 0x27] @ ''v'' @ [CHR 0x27]]"
    by code_simp
  have d: "re_match True contains_pattern (''X does not contain '' @ [CHR 0x27] @ ''v'' @ [CHR 0x27]) =
             Some [''X does not'', [CHR 0x27] @ ''v'' @ [CHR 0x27]]"
    by code_simp
  have e: "parse_applies_if_condition ex_rt
     (CStr (''1. X does not equal to '' @ [CHR 0x27] @ ''v'' @ [CHR 0x27] @
            '' and Y does not contain '' @ [CHR 0x27] @ ''w'' @ [CHR 0x27])) =
     [(''X'', DoesNotEqual, [''v'']), (''Y'', DoesNotContain, [''w''])]"
    by code_simp
  from a b c d e show ?thesis by blast
qed

end
